theory Spec2Isabelle
  imports Main "HOL-Library.Word"
begin

section \<open>Data model\<close>

text \<open>
  The program reads a scan report, resolves the project identity from templates, asks the
  tracking service whether the upload is the latest one, uploads the BOM and waits for the
  service to finish processing it, and finally appends tags to the project.

  Go values are modelled as follows: \<open>string\<close> and \<open>[]byte\<close> as lists of bytes,
  \<open>int64\<close> (and \<open>int\<close>, which has 64 bits on the platforms the program is built for) as
  \<open>64 word\<close> read with \<open>sint\<close>, \<open>time.Duration\<close> as \<open>int\<close> (nanoseconds), an
  \<open>error\<close> as a value of the datatype \<open>error\<close>.
\<close>

type_synonym byte = "8 word"

datatype error =
    ErrorString string   \<comment> \<open>\<open>errors.New\<close>, \<open>fmt.Errorf\<close>, and every error of a collaborator\<close>
  | Canceled             \<comment> \<open>\<open>context.Canceled\<close>\<close>
  | DeadlineExceeded     \<comment> \<open>\<open>context.DeadlineExceeded\<close>\<close>

text \<open>What a Go function of result type \<open>error\<close> does: it returns \<open>nil\<close>, it returns an
  error, or the program panics.\<close>

datatype ret = ReturnsNil | Returns error | Panics

text \<open>\<open>dtrack.Tag\<close> and the fields of \<open>dtrack.Project\<close> that the program reads or
  writes (every other field keeps its zero value).\<close>

datatype Tag = Tag (tagName: string)

record Project =
  UUID :: string
  Name :: string
  Version :: string
  Active :: bool
  Tags :: "Tag list"
  LastBOMImport :: "64 word"

record BOMUploadRequest =
  req_ProjectUUID :: "string option"
  req_ProjectName :: string
  req_ProjectVersion :: string
  req_ParentName :: string
  req_ParentVersion :: string
  req_AutoCreate :: bool
  req_BOM :: string
  req_IsLatest :: "bool option"

text \<open>
  The client library of the tracking service (\<open>dtrack.Client\<close>) is a collaborator: each
  of its operations is a parameter, a function of the state \<open>'s\<close> of the service that
  returns its result and the new state. \<open>Event_IsBeingProcessed\<close> also returns the time
  the call took. The context argument of the operations is left out: what a cancelled
  context does to a request is part of the behaviour of the client, which is arbitrary
  here. The \<open>log.Printf\<close> lines of the program are left out as well.
\<close>

record 's dtrack_Client =
  Project_Lookup :: "string \<Rightarrow> string \<Rightarrow> 's \<Rightarrow> (error + Project) \<times> 's"
  Project_Create :: "Project \<Rightarrow> 's \<Rightarrow> (error + Project) \<times> 's"
  Project_Update :: "Project \<Rightarrow> 's \<Rightarrow> (error + Project) \<times> 's"
  BOM_Upload :: "BOMUploadRequest \<Rightarrow> 's \<Rightarrow> (error + string) \<times> 's"
  Event_IsBeingProcessed :: "string \<Rightarrow> 's \<Rightarrow> ((error + bool) \<times> nat) \<times> 's"

record 's DependencyTrack =
  Client :: "'s dtrack_Client"
  SBOMUploadTimeout :: int
  SBOMUploadCheckInterval :: int

text \<open>
  The calls the program makes are recorded in a trace (instrumentation that the source does
  not have), so that "is not invoked" and "is called once with these arguments" are
  statements about the trace.
\<close>

datatype event =
    Call_IsLatest string string "64 word"
  | Call_UploadBOM string string string string "byte list" bool
  | Call_AddTagsToProject string string "string list"
  | Client_Lookup string string
  | Client_Create Project
  | Client_Update Project
  | Client_Upload BOMUploadRequest
  | Client_IsBeingProcessed string

record 's world =
  svc :: 's
  trace :: "event list"

definition record_event :: "event \<Rightarrow> 's world \<Rightarrow> 's world" where
  "record_event e w = w\<lparr>trace := trace w @ [e]\<rparr>"

definition Lookup :: "'s dtrack_Client \<Rightarrow> string \<Rightarrow> string \<Rightarrow> 's world \<Rightarrow> (error + Project) \<times> 's world" where
  "Lookup c name version w =
     (case Project_Lookup c name version (svc w) of
        (r, s') \<Rightarrow> (r, \<lparr>svc = s', trace = trace w @ [Client_Lookup name version]\<rparr>))"

definition Create :: "'s dtrack_Client \<Rightarrow> Project \<Rightarrow> 's world \<Rightarrow> (error + Project) \<times> 's world" where
  "Create c p w =
     (case Project_Create c p (svc w) of
        (r, s') \<Rightarrow> (r, \<lparr>svc = s', trace = trace w @ [Client_Create p]\<rparr>))"

definition Update :: "'s dtrack_Client \<Rightarrow> Project \<Rightarrow> 's world \<Rightarrow> (error + Project) \<times> 's world" where
  "Update c p w =
     (case Project_Update c p (svc w) of
        (r, s') \<Rightarrow> (r, \<lparr>svc = s', trace = trace w @ [Client_Update p]\<rparr>))"

definition Upload :: "'s dtrack_Client \<Rightarrow> BOMUploadRequest \<Rightarrow> 's world \<Rightarrow> (error + string) \<times> 's world" where
  "Upload c rq w =
     (case BOM_Upload c rq (svc w) of
        (r, s') \<Rightarrow> (r, \<lparr>svc = s', trace = trace w @ [Client_Upload rq]\<rparr>))"

definition IsBeingProcessed ::
  "'s dtrack_Client \<Rightarrow> string \<Rightarrow> 's world \<Rightarrow> ((error + bool) \<times> nat) \<times> 's world" where
  "IsBeingProcessed c token w =
     (case Event_IsBeingProcessed c token (svc w) of
        (r, s') \<Rightarrow> (r, \<lparr>svc = s', trace = trace w @ [Client_IsBeingProcessed token]\<rparr>))"

section \<open>The Latest-Version Arbiter\<close>

text \<open>\<open>DependencyTrack.IsLatest\<close>: a failed lookup makes the upload the latest one;
  otherwise the record's \<open>LastBOMImport\<close> is compared with the incoming timestamp as
  signed 64-bit integers.\<close>

definition IsLatest ::
  "'s DependencyTrack \<Rightarrow> string \<Rightarrow> string \<Rightarrow> 64 word \<Rightarrow> 's world \<Rightarrow> bool \<times> 's world" where
  "IsLatest dt projectName projectVersion updateTimestamp w =
     (case Lookup (Client dt) projectName projectVersion
             (record_event (Call_IsLatest projectName projectVersion updateTimestamp) w) of
        (Inl err, w') \<Rightarrow> (True, w')
      | (Inr project, w') \<Rightarrow> (sint (LastBOMImport project) < sint updateTimestamp, w'))"

section \<open>The Upload Orchestrator\<close>

text \<open>\<open>base64.StdEncoding.EncodeToString\<close>: three bytes become four characters of the
  standard alphabet, and an incomplete last group is padded with \<open>=\<close>.\<close>

definition b64char :: "nat \<Rightarrow> char" where
  "b64char n = ''ABCDEFGHIJKLMNOPQRSTUVWXYZabcdefghijklmnopqrstuvwxyz0123456789+/'' ! (n mod 64)"

fun EncodeToString :: "byte list \<Rightarrow> string" where
  "EncodeToString [] = []"
| "EncodeToString [a] =
     [b64char (unat a div 4), b64char (unat a mod 4 * 16), CHR ''='', CHR ''='']"
| "EncodeToString [a, b] =
     [b64char (unat a div 4), b64char (unat a mod 4 * 16 + unat b div 16),
      b64char (unat b mod 16 * 4), CHR ''='']"
| "EncodeToString (a # b # c # rest) =
     [b64char (unat a div 4), b64char (unat a mod 4 * 16 + unat b div 16),
      b64char (unat b mod 16 * 4 + unat c div 64), b64char (unat c mod 64)]
     @ EncodeToString rest"

text \<open>
  Lines 43 to 60 of \<open>UploadBOM\<close>, with the project that the rest of the function uses.
  The project is looked up; when the lookup fails, the service is asked to create the
  project (only name, version and the active flag are set), the error of a failed create is
  returned, and otherwise the project is looked up again and the error of a failed second
  lookup is returned.

  The variable \<open>project\<close> that line 66 reads is the one line 43 declares. Inside the
  \<open>if\<close> block line 46 declares a second variable of the same name (\<open>project :=\<close>),
  and it is this inner variable that the second lookup of line 56 assigns. So after a
  create the function goes on with what the failed first lookup returned, which is the zero
  value of \<open>dtrack.Project\<close>, and not with the project the second lookup found.
\<close>

definition zeroProject :: Project where
  "zeroProject = \<lparr>UUID = [], Name = [], Version = [], Active = False, Tags = [],
                  LastBOMImport = 0\<rparr>"

definition ensureProject ::
  "'s dtrack_Client \<Rightarrow> string \<Rightarrow> string \<Rightarrow> 's world \<Rightarrow> (error + Project) \<times> 's world" where
  "ensureProject c projectName projectVersion w =
     (case Lookup c projectName projectVersion w of
        (Inr project, w1) \<Rightarrow> (Inr project, w1)
      | (Inl err, w1) \<Rightarrow>
          (case Create c \<lparr>UUID = [], Name = projectName, Version = projectVersion,
                           Active = True, Tags = [], LastBOMImport = 0\<rparr> w1 of
             (Inl err, w2) \<Rightarrow> (Inl err, w2)
           | (Inr created, w2) \<Rightarrow>
               (case Lookup c projectName projectVersion w2 of
                  (Inl err, w3) \<Rightarrow> (Inl err, w3)
                | (Inr inner, w3) \<Rightarrow> (Inr zeroProject, w3))))"

text \<open>
  The poll task. Time is counted in nanoseconds from the moment the task creates its
  ticker. The caller's context is given by the instant at which its \<open>Done\<close> channel is
  closed (if ever) and by the error \<open>Err\<close> returns from then on.

  One \<open>select\<close> of the loop, entered at \<open>now\<close>, waits for the first of three
  channels:
  \<^item> the ticker's channel, which holds at most one tick: the ticker sends at every multiple
    of the interval and drops a tick that finds the channel full, so the next tick that can
    be received is the first one sent after the last receive;
  \<^item> the channel of \<open>time.After(timeout)\<close>, evaluated anew each time the \<open>select\<close> is
    entered, so it fires \<open>timeout\<close> after \<open>now\<close> (at once when the duration is not
    positive);
  \<^item> \<open>ctx.Done()\<close>.
  When several channels are ready at the same instant Go chooses one of them pseudo-randomly:
  \<open>r\<close> is the random number of this \<open>select\<close>.
\<close>

record ctx =
  ctx_Done :: "nat option"
  ctx_Err :: error

datatype select_case = Case_Tick | Case_Timeout | Case_Done

definition nextTick :: "nat \<Rightarrow> nat \<Rightarrow> nat" where
  "nextTick interval lastRecv = (lastRecv div interval + 1) * interval"

definition tickAt :: "nat \<Rightarrow> nat \<Rightarrow> nat \<Rightarrow> nat" where
  "tickAt interval now lastRecv = max now (nextTick interval lastRecv)"

definition timerAt :: "int \<Rightarrow> nat \<Rightarrow> nat" where
  "timerAt timeout now = now + nat timeout"

definition doneAt :: "ctx \<Rightarrow> nat \<Rightarrow> nat option" where
  "doneAt c now = map_option (max now) (ctx_Done c)"

definition wakeAt :: "nat \<Rightarrow> int \<Rightarrow> ctx \<Rightarrow> nat \<Rightarrow> nat \<Rightarrow> nat" where
  "wakeAt interval timeout c now lastRecv =
     (case doneAt c now of
        None \<Rightarrow> min (tickAt interval now lastRecv) (timerAt timeout now)
      | Some t \<Rightarrow> min (min (tickAt interval now lastRecv) (timerAt timeout now)) t)"

definition readyCases :: "nat \<Rightarrow> int \<Rightarrow> ctx \<Rightarrow> nat \<Rightarrow> nat \<Rightarrow> select_case list" where
  "readyCases interval timeout c now lastRecv =
     (let wake = wakeAt interval timeout c now lastRecv in
        (if tickAt interval now lastRecv = wake then [Case_Tick] else [])
      @ (if timerAt timeout now = wake then [Case_Timeout] else [])
      @ (if doneAt c now = Some wake then [Case_Done] else []))"

definition select :: "nat \<Rightarrow> int \<Rightarrow> ctx \<Rightarrow> nat \<Rightarrow> nat \<Rightarrow> nat \<Rightarrow> nat \<times> select_case" where
  "select interval timeout c r now lastRecv =
     (let ready = readyCases interval timeout c now lastRecv in
        (wakeAt interval timeout c now lastRecv, ready ! (r mod length ready)))"

text \<open>
  The \<open>for\<close> loop of the task (lines 92 to 111). \<open>k\<close> counts the iterations,
  \<open>lastRecv\<close> is the instant of the last receive from the ticker. The result is what the
  task sends to the caller (\<open>doneChan\<close>: \<open>ReturnsNil\<close>, \<open>errChan\<close>: the error), the
  instant at which it does, and the world then. A loop that never ends has the value
  \<open>None\<close>.
\<close>

partial_function (option) pollLoop ::
  "'s dtrack_Client \<Rightarrow> nat \<Rightarrow> int \<Rightarrow> ctx \<Rightarrow> (nat \<Rightarrow> nat) \<Rightarrow> string \<Rightarrow> nat \<Rightarrow> nat \<Rightarrow> nat \<Rightarrow> 's world
     \<Rightarrow> (ret \<times> nat \<times> 's world) option" where
  "pollLoop c interval timeout cx rnd token now lastRecv k w =
     (case select interval timeout cx (rnd k) now lastRecv of
        (wake, Case_Tick) \<Rightarrow>
          (case IsBeingProcessed c token w of
             ((Inl err, elapsed), w') \<Rightarrow> Some (Returns err, wake + elapsed, w')
           | ((Inr processing, elapsed), w') \<Rightarrow>
               if \<not> processing then Some (ReturnsNil, wake + elapsed, w')
               else pollLoop c interval timeout cx rnd token (wake + elapsed) wake (k + 1) w')
      | (wake, Case_Timeout) \<Rightarrow> Some (Returns (ErrorString ''timeout exceeded''), wake, w)
      | (wake, Case_Done) \<Rightarrow> Some (Returns (ctx_Err cx), wake, w))"

declare pollLoop.simps [code]

text \<open>The task (lines 83 to 112): \<open>time.NewTicker\<close> panics when the interval is not
  positive; otherwise the loop starts at instant 0.\<close>

definition pollTask ::
  "'s DependencyTrack \<Rightarrow> (nat \<Rightarrow> nat) \<Rightarrow> ctx \<Rightarrow> string \<Rightarrow> 's world \<Rightarrow> (ret \<times> nat \<times> 's world) option" where
  "pollTask dt rnd cx token w =
     (if SBOMUploadCheckInterval dt \<le> 0 then Some (Panics, 0, w)
      else pollLoop (Client dt) (nat (SBOMUploadCheckInterval dt)) (SBOMUploadTimeout dt)
             cx rnd token 0 0 0 w)"

text \<open>\<open>DependencyTrack.UploadBOM\<close>. Its last two parameters (\<open>namespace\<close>,
  \<open>serviceName\<close>) are not used by the body and are left out.\<close>

definition UploadBOM ::
  "'s DependencyTrack \<Rightarrow> (nat \<Rightarrow> nat) \<Rightarrow> ctx \<Rightarrow> string \<Rightarrow> string \<Rightarrow> string \<Rightarrow> string \<Rightarrow> byte list \<Rightarrow> bool
     \<Rightarrow> 's world \<Rightarrow> (ret \<times> 's world) option" where
  "UploadBOM dt rnd cx projectName projectVersion parentName parentVersion bom isLatest w =
     (case ensureProject (Client dt) projectName projectVersion
             (record_event (Call_UploadBOM projectName projectVersion parentName parentVersion
                              bom isLatest) w) of
        (Inl err, w1) \<Rightarrow> Some (Returns err, w1)
      | (Inr project, w1) \<Rightarrow>
          (case Upload (Client dt)
                  \<lparr>req_ProjectUUID = Some (UUID project), req_ProjectName = [],
                   req_ProjectVersion = projectVersion, req_ParentName = parentName,
                   req_ParentVersion = parentVersion, req_AutoCreate = True,
                   req_BOM = EncodeToString bom, req_IsLatest = Some isLatest\<rparr> w1 of
             (Inl err, w2) \<Rightarrow> Some (Returns err, w2)
           | (Inr uploadToken, w2) \<Rightarrow>
               (case pollTask dt rnd cx uploadToken w2 of
                  None \<Rightarrow> None
                | Some (r, t, w3) \<Rightarrow> Some (r, w3))))"

text \<open>Lines 65 to 123 of \<open>UploadBOM\<close> for a given upload request: the request is
  submitted, the error of a failed submission is returned, and otherwise the poll task
  decides the result.\<close>

definition submitAndPoll ::
  "'s DependencyTrack \<Rightarrow> (nat \<Rightarrow> nat) \<Rightarrow> ctx \<Rightarrow> BOMUploadRequest \<Rightarrow> 's world
     \<Rightarrow> (ret \<times> 's world) option" where
  "submitAndPoll dt rnd cx rq w1 =
     (case Upload (Client dt) rq w1 of
        (Inl err, w2) \<Rightarrow> Some (Returns err, w2)
      | (Inr uploadToken, w2) \<Rightarrow>
          (case pollTask dt rnd cx uploadToken w2 of
             None \<Rightarrow> None
           | Some (r, t, w3) \<Rightarrow> Some (r, w3)))"

section \<open>The Tag Applier\<close>

text \<open>\<open>DependencyTrack.AddTagsToProject\<close>; the loop appends one tag after the other.\<close>

definition appendTags :: "Tag list \<Rightarrow> string list \<Rightarrow> Tag list" where
  "appendTags existing tags = foldl (\<lambda>ts tag. ts @ [Tag tag]) existing tags"

definition AddTagsToProject ::
  "'s DependencyTrack \<Rightarrow> string \<Rightarrow> string \<Rightarrow> string list \<Rightarrow> 's world \<Rightarrow> ret \<times> 's world" where
  "AddTagsToProject dt projectName projectVersion tags w =
     (case Lookup (Client dt) projectName projectVersion
             (record_event (Call_AddTagsToProject projectName projectVersion tags) w) of
        (Inl err, w1) \<Rightarrow> (Returns err, w1)
      | (Inr project, w1) \<Rightarrow>
          (case Update (Client dt) (project\<lparr>Tags := appendTags (Tags project) tags\<rparr>) w1 of
             (Inl err, w2) \<Rightarrow> (Returns err, w2)
           | (Inr updated, w2) \<Rightarrow> (ReturnsNil, w2)))"

section \<open>The Run Coordinator\<close>

text \<open>
  \<open>strconv.ParseInt(s, 10, 64)\<close>: an optional sign followed by at least one decimal
  digit (the bytes 48 to 57), and a value that fits a signed 64-bit integer. \<open>None\<close>
  stands for a result with a non-nil error (the program only tests the error against
  \<open>nil\<close>).
\<close>

fun parseDigits :: "nat \<Rightarrow> string \<Rightarrow> nat option" where
  "parseDigits n [] = Some n"
| "parseDigits n (c # cs) =
     (if (48 :: nat) \<le> of_char c \<and> of_char c \<le> (57 :: nat)
      then parseDigits (n * 10 + (of_char c - 48)) cs
      else None)"

definition ParseUint :: "string \<Rightarrow> nat option" where
  "ParseUint s = (if s = [] then None else parseDigits 0 s)"

definition ParseInt :: "string \<Rightarrow> 64 word option" where
  "ParseInt s =
     (if s = [] then None
      else let neg = (hd s = CHR ''-'');
               s' = (if hd s = CHR ''+'' \<or> hd s = CHR ''-'' then tl s else s)
           in case ParseUint s' of
                None \<Rightarrow> None
              | Some un \<Rightarrow>
                  if \<not> neg \<and> un \<ge> 2 ^ 63 then None
                  else if neg \<and> un > 2 ^ 63 then None
                  else Some (if neg then - word_of_nat un else word_of_nat un))"

text \<open>
  The packages \<open>sbomreport\<close> and \<open>template\<close> and the type \<open>config.Config\<close> are
  collaborators of \<open>Run\<close>: the functions \<open>Run\<close> calls are parameters, over a type
  \<open>'r\<close> of parsed reports and a type \<open>'m\<close> of report mappings. \<open>Render\<close> stands for
  \<open>tmpl.New(m).Render(s)\<close>.
\<close>

record ('r, 'm) packages =
  sbomreport_New :: "byte list \<Rightarrow> error + 'r"
  IsErrNotSBOMReport :: "error \<Rightarrow> bool"
  ISVerbUpdate :: "'r \<Rightarrow> bool"
  ToMap :: "'r \<Rightarrow> error + 'm"
  BOM :: "'r \<Rightarrow> byte list"
  UpdateTimestamp :: "'r \<Rightarrow> string"
  Render :: "'m \<Rightarrow> string \<Rightarrow> error + string"

record Config =
  ProjectName :: string
  ProjectVersion :: string
  ProjectTags :: "string list"
  ParentName :: string
  ParentVersion :: string

record 's Upload =
  dtrack :: "'s DependencyTrack"
  config :: Config
  latestTimestamps :: "string \<rightharpoonup> string"

text \<open>The loop over the tag templates (lines 69 to 76): the first failing template ends
  the run.\<close>

fun renderTags :: "(string \<Rightarrow> error + string) \<Rightarrow> string list \<Rightarrow> string list \<Rightarrow> error + string list" where
  "renderTags render [] projectTags = Inr projectTags"
| "renderTags render (tag # tags) projectTags =
     (case render tag of
        Inl err \<Rightarrow> Inl err
      | Inr t \<Rightarrow> renderTags render tags (projectTags @ [t]))"

text \<open>What lines 39 to 86 of \<open>Run\<close> resolve from the input.\<close>

record 'r resolved =
  sbom :: 'r
  projectName :: string
  projectVersion :: string
  projectTags :: "string list"
  parentName :: string
  parentVersion :: string

text \<open>Lines 39 to 86 of \<open>Run\<close>, which do not touch the tracking service: \<open>Inl r\<close> when
  \<open>Run\<close> returns \<open>r\<close> there, \<open>Inr\<close> of the resolved values otherwise.\<close>

definition resolve :: "('r, 'm) packages \<Rightarrow> Config \<Rightarrow> byte list \<Rightarrow> ret + 'r resolved" where
  "resolve x cfg input =
     (case sbomreport_New x input of
        Inl err \<Rightarrow> if IsErrNotSBOMReport x err then Inl ReturnsNil else Inl (Returns err)
      | Inr sb \<Rightarrow>
          if \<not> ISVerbUpdate x sb then Inl (Returns (ErrorString ''only support verb is update''))
          else
          (case ToMap x sb of
            Inl err \<Rightarrow> Inl (Returns err)
          | Inr sbomMap \<Rightarrow>
          (case Render x sbomMap (ProjectName cfg) of
            Inl err \<Rightarrow> Inl (Returns err)
          | Inr pName \<Rightarrow>
          (case Render x sbomMap (ProjectVersion cfg) of
            Inl err \<Rightarrow> Inl (Returns err)
          | Inr pVersion \<Rightarrow>
          (case renderTags (Render x sbomMap) (ProjectTags cfg) [] of
            Inl err \<Rightarrow> Inl (Returns err)
          | Inr pTags \<Rightarrow>
          (case Render x sbomMap (ParentName cfg) of
            Inl err \<Rightarrow> Inl (Returns err)
          | Inr parName \<Rightarrow>
          (case Render x sbomMap (ParentVersion cfg) of
            Inl err \<Rightarrow> Inl (Returns err)
          | Inr parVersion \<Rightarrow>
              Inr \<lparr>sbom = sb, projectName = pName, projectVersion = pVersion,
                   projectTags = pTags, parentName = parName,
                   parentVersion = parVersion\<rparr>)))))))"

text \<open>Lines 88 to 92 of \<open>Run\<close>: the latest flag.\<close>

definition arbitrate ::
  "('r, 'm) packages \<Rightarrow> 's DependencyTrack \<Rightarrow> 'r resolved \<Rightarrow> 's world \<Rightarrow> bool \<times> 's world" where
  "arbitrate x dt rs w =
     (case ParseInt (UpdateTimestamp x (sbom rs)) of
        None \<Rightarrow> (True, w)
      | Some incomingTS \<Rightarrow> IsLatest dt (projectName rs) (projectVersion rs) incomingTS w)"

text \<open>\<open>Upload.Run\<close>. \<open>rnd\<close> are the random choices of the Go runtime in the poll loop;
  \<open>None\<close> is a run that never returns.\<close>

definition Run ::
  "('r, 'm) packages \<Rightarrow> (nat \<Rightarrow> nat) \<Rightarrow> 's Upload \<Rightarrow> ctx \<Rightarrow> byte list \<Rightarrow> 's world
     \<Rightarrow> (ret \<times> 's world) option" where
  "Run x rnd u cx input w =
     (case resolve x (config u) input of
        Inl r \<Rightarrow> Some (r, w)
      | Inr rs \<Rightarrow>
          (case arbitrate x (dtrack u) rs w of
             (isLatest, w1) \<Rightarrow>
               (case UploadBOM (dtrack u) rnd cx (projectName rs) (projectVersion rs)
                       (parentName rs) (parentVersion rs) (BOM x (sbom rs)) isLatest w1 of
                  None \<Rightarrow> None
                | Some (Returns err, w2) \<Rightarrow> Some (Returns err, w2)
                | Some (Panics, w2) \<Rightarrow> Some (Panics, w2)
                | Some (ReturnsNil, w2) \<Rightarrow>
                    if length (projectTags rs) > 0
                    then Some (AddTagsToProject (dtrack u) (projectName rs) (projectVersion rs)
                                 (projectTags rs) w2)
                    else Some (ReturnsNil, w2))))"

section \<open>Reading the trace\<close>

text \<open>The calls of the three methods of \<open>DependencyTrackClient\<close>, the events of the
  tag step (the method call and the update request), the BOM submissions, and the requests
  that are none of these.\<close>

fun is_method_call :: "event \<Rightarrow> bool" where
  "is_method_call (Call_IsLatest n v ts) = True"
| "is_method_call (Call_UploadBOM n v pn pv bom isLatest) = True"
| "is_method_call (Call_AddTagsToProject n v tags) = True"
| "is_method_call e = False"

fun is_tagging :: "event \<Rightarrow> bool" where
  "is_tagging (Call_AddTagsToProject n v tags) = True"
| "is_tagging (Client_Update p) = True"
| "is_tagging e = False"

fun is_submission :: "event \<Rightarrow> bool" where
  "is_submission (Client_Upload rq) = True"
| "is_submission e = False"

fun is_query :: "event \<Rightarrow> bool" where
  "is_query (Client_Lookup n v) = True"
| "is_query (Client_Create p) = True"
| "is_query (Client_IsBeingProcessed token) = True"
| "is_query e = False"

definition method_calls :: "event list \<Rightarrow> event list" where
  "method_calls tr = filter is_method_call tr"

definition tagging :: "event list \<Rightarrow> event list" where
  "tagging tr = filter is_tagging tr"

definition submissions :: "event list \<Rightarrow> event list" where
  "submissions tr = filter is_submission tr"

text \<open>The request \<open>UploadBOM\<close> submits for a project.\<close>

definition uploadRequest :: "Project \<Rightarrow> string \<Rightarrow> string \<Rightarrow> string \<Rightarrow> byte list \<Rightarrow> bool \<Rightarrow> BOMUploadRequest" where
  "uploadRequest project version parent parentVer bom isLatest =
     \<lparr>req_ProjectUUID = Some (UUID project), req_ProjectName = [],
      req_ProjectVersion = version, req_ParentName = parent,
      req_ParentVersion = parentVer, req_AutoCreate = True,
      req_BOM = EncodeToString bom, req_IsLatest = Some isLatest\<rparr>"

text \<open>The project \<open>UploadBOM\<close> asks the service to create.\<close>

definition newProject :: "string \<Rightarrow> string \<Rightarrow> Project" where
  "newProject name version =
     \<lparr>UUID = [], Name = name, Version = version, Active = True, Tags = [],
      LastBOMImport = 0\<rparr>"

section \<open>A tracking service and a report package for the examples\<close>

text \<open>
  A small tracking service on which the theorems below are instantiated: it keeps a list of
  projects and the upload requests it received. \<open>raced\<close> makes \<open>Create\<close> fail because
  another caller has just created the project, \<open>updateFails\<close> makes \<open>Update\<close> fail,
  \<open>busy\<close> makes every upload stay in processing for ever, \<open>stillProcessing\<close> is the
  number of polls that still find the upload in processing, and \<open>rtt\<close> is the time one poll
  takes.
\<close>

record fake =
  projects :: "Project list"
  uploads :: "BOMUploadRequest list"
  raced :: bool
  updateFails :: bool
  busy :: bool
  stillProcessing :: nat
  rtt :: nat

definition fake_Lookup :: "string \<Rightarrow> string \<Rightarrow> fake \<Rightarrow> (error + Project) \<times> fake" where
  "fake_Lookup name version s =
     (case find (\<lambda>p. Name p = name \<and> Version p = version) (projects s) of
        None \<Rightarrow> (Inl (ErrorString ''project not found''), s)
      | Some p \<Rightarrow> (Inr p, s))"

definition fake_Create :: "Project \<Rightarrow> fake \<Rightarrow> (error + Project) \<times> fake" where
  "fake_Create p s =
     (if raced s
      then (Inl (ErrorString ''project already exists''),
            s\<lparr>projects := projects s @ [p\<lparr>UUID := ''other''\<rparr>]\<rparr>)
      else (Inr (p\<lparr>UUID := ''mine''\<rparr>), s\<lparr>projects := projects s @ [p\<lparr>UUID := ''mine''\<rparr>]\<rparr>))"

definition fake_Update :: "Project \<Rightarrow> fake \<Rightarrow> (error + Project) \<times> fake" where
  "fake_Update p s =
     (if updateFails s then (Inl (ErrorString ''update failed''), s)
      else (Inr p, s\<lparr>projects := map (\<lambda>q. if UUID q = UUID p then p else q) (projects s)\<rparr>))"

definition fake_Upload :: "BOMUploadRequest \<Rightarrow> fake \<Rightarrow> (error + string) \<times> fake" where
  "fake_Upload rq s = (Inr ''token'', s\<lparr>uploads := uploads s @ [rq]\<rparr>)"

definition fake_IsBeingProcessed :: "string \<Rightarrow> fake \<Rightarrow> ((error + bool) \<times> nat) \<times> fake" where
  "fake_IsBeingProcessed token s =
     (if busy s then ((Inr True, rtt s), s)
      else case stillProcessing s of
             0 \<Rightarrow> ((Inr False, rtt s), s)
           | Suc n \<Rightarrow> ((Inr True, rtt s), s\<lparr>stillProcessing := n\<rparr>))"

definition fake_Client :: "fake dtrack_Client" where
  "fake_Client =
     \<lparr>Project_Lookup = fake_Lookup, Project_Create = fake_Create,
      Project_Update = fake_Update, BOM_Upload = fake_Upload,
      Event_IsBeingProcessed = fake_IsBeingProcessed\<rparr>"

text \<open>One second and three seconds in nanoseconds, and a client that polls every second
  and gives the upload three seconds.\<close>

definition second :: int where
  "second = 1000000000"

definition fake_dt :: "fake DependencyTrack" where
  "fake_dt = \<lparr>Client = fake_Client, SBOMUploadTimeout = 3 * second,
              SBOMUploadCheckInterval = second\<rparr>"

definition myproj :: Project where
  "myproj = \<lparr>UUID = ''u1'', Name = ''myproj'', Version = ''v1'', Active = True,
             Tags = [Tag ''old''], LastBOMImport = 1700000000\<rparr>"

definition empty_service :: fake where
  "empty_service = \<lparr>projects = [], uploads = [], raced = False, updateFails = False,
                    busy = False, stillProcessing = 0, rtt = 0\<rparr>"

definition world0 :: "fake \<Rightarrow> fake world" where
  "world0 s = \<lparr>svc = s, trace = []\<rparr>"

text \<open>A runtime that always takes the first ready case of a \<open>select\<close>.\<close>

definition first_ready :: "nat \<Rightarrow> nat" where
  "first_ready k = 0"

definition background :: ctx where
  "background = \<lparr>ctx_Done = None, ctx_Err = Canceled\<rparr>"


definition tracked :: fake where
  "tracked = empty_service\<lparr>projects := [myproj]\<rparr>"

text \<open>A service on which updates fail, a service on which another caller wins the race
  for the creation of the project, and a client whose lookups never find a project.\<close>

definition failing :: fake where
  "failing = tracked\<lparr>updateFails := True\<rparr>"

definition racing :: fake where
  "racing = empty_service\<lparr>raced := True\<rparr>"

definition lost_Client :: "fake dtrack_Client" where
  "lost_Client = fake_Client\<lparr>Project_Lookup := (\<lambda>n v s. (Inl (ErrorString ''project not found''), s))\<rparr>"

definition lost_dt :: "fake DependencyTrack" where
  "lost_dt = fake_dt\<lparr>Client := lost_Client\<rparr>"


text \<open>A report package whose parser returns a fixed result: a report is its verb and its
  update timestamp, the BOM is three bytes, and a template renders as itself.\<close>

definition fixed_packages :: "error + string \<times> string \<Rightarrow> (string \<times> string, unit) packages" where
  "fixed_packages parsed =
     \<lparr>sbomreport_New = (\<lambda>input. parsed),
      IsErrNotSBOMReport = (\<lambda>err. err = ErrorString ''not sbom report''),
      ISVerbUpdate = (\<lambda>r. fst r = ''update''),
      ToMap = (\<lambda>r. Inr ()),
      BOM = (\<lambda>r. [1, 2, 3]),
      UpdateTimestamp = snd,
      Render = (\<lambda>m s. Inr s)\<rparr>"

definition fake_config :: "string list \<Rightarrow> Config" where
  "fake_config tags =
     \<lparr>ProjectName = ''myproj'', ProjectVersion = ''v1'', ProjectTags = tags,
      ParentName = [], ParentVersion = []\<rparr>"

definition fake_uploader :: "string list \<Rightarrow> fake Upload" where
  "fake_uploader tags =
     \<lparr>dtrack = fake_dt, config = fake_config tags, latestTimestamps = Map.empty\<rparr>"

section \<open>Auxiliary facts\<close>

subsection \<open>The select of the poll loop\<close>

text \<open>The \<open>select\<close> always has a ready case to take at the instant it wakes.\<close>

lemma readyCases_nonempty: "readyCases d T cx now lr \<noteq> []"
  by (auto simp: readyCases_def wakeAt_def Let_def min_def split: option.splits)

lemma nextTick_bounds:
  assumes "0 < d"
  shows "lr < nextTick d lr" and "nextTick d lr \<le> lr + d"
proof -
  have "lr div d * d \<le> lr" by simp
  then show "nextTick d lr \<le> lr + d" by (simp add: nextTick_def)
  have "lr < (lr div d + 1) * d"
    using assms by (metis Suc_eq_plus1 dividend_less_div_times mult.commute mult_Suc)
  then show "lr < nextTick d lr" by (simp add: nextTick_def)
qed

lemma tick_before_timer:
  assumes "0 < d" "int d < T" "lr \<le> now"
  shows "tickAt d now lr < timerAt T now"
proof -
  have "nextTick d lr \<le> lr + d"
    using assms(1) by (rule nextTick_bounds)
  moreover have "d < nat T" and "0 < nat T"
    using assms by linarith+
  ultimately show ?thesis
    using assms(3) by (simp add: tickAt_def timerAt_def max_def)
qed

lemma select_tick_first:
  assumes "0 < d" "int d < T" "lr \<le> now" "ctx_Done cx = None"
  shows "select d T cx r now lr = (tickAt d now lr, Case_Tick)"
proof -
  have lt: "tickAt d now lr < timerAt T now"
    using assms(1-3) by (rule tick_before_timer)
  have wake: "wakeAt d T cx now lr = tickAt d now lr"
    using lt assms(4) by (simp add: wakeAt_def doneAt_def)
  have "readyCases d T cx now lr = [Case_Tick]"
    using lt assms(4) by (simp add: readyCases_def wake doneAt_def)
  then show ?thesis
    by (simp add: select_def wake)
qed

lemma pollLoop_busy_aux:
  assumes "pollLoop c d T cx rnd token now lr k w = Some y"
  shows "0 < d \<longrightarrow> int d < T \<longrightarrow> ctx_Done cx = None \<longrightarrow> lr \<le> now \<longrightarrow> I (svc w) \<longrightarrow>
         (\<forall>tok s. I s \<longrightarrow> fst (fst (Event_IsBeingProcessed c tok s)) = Inr True
                          \<and> I (snd (Event_IsBeingProcessed c tok s))) \<longrightarrow> False"
proof (rule pollLoop.raw_induct [where P = "\<lambda>c d T cx rnd token now lr k w y.
         0 < d \<longrightarrow> int d < T \<longrightarrow> ctx_Done cx = None \<longrightarrow> lr \<le> now \<longrightarrow> I (svc w) \<longrightarrow>
         (\<forall>tok s. I s \<longrightarrow> fst (fst (Event_IsBeingProcessed c tok s)) = Inr True
                          \<and> I (snd (Event_IsBeingProcessed c tok s))) \<longrightarrow> False", OF _ assms],
    goal_cases)
  case (1 pollLoop' c d T cx rnd token now lr k w y)
  show ?case
  proof (intro impI)
    assume d: "0 < d" and T: "int d < T" and cx: "ctx_Done cx = None" and lr: "lr \<le> now"
      and inv: "I (svc w)"
      and busy: "\<forall>tok s. I s \<longrightarrow> fst (fst (Event_IsBeingProcessed c tok s)) = Inr True
                          \<and> I (snd (Event_IsBeingProcessed c tok s))"
    have sel: "select d T cx (rnd k) now lr = (tickAt d now lr, Case_Tick)"
      using d T lr cx by (rule select_tick_first)
    obtain e s' where call: "Event_IsBeingProcessed c token (svc w) = ((Inr True, e), s')"
      and inv': "I s'"
      using busy [rule_format, OF inv, of token]
      by (cases "Event_IsBeingProcessed c token (svc w)") (auto simp: fst_def split: prod.splits)
    from 1(2) have "pollLoop' c d T cx rnd token (tickAt d now lr + e) (tickAt d now lr) (k + 1)
        \<lparr>svc = s', trace = trace w @ [Client_IsBeingProcessed token]\<rparr> = Some y"
      by (simp add: sel IsBeingProcessed_def call)
    from 1(1) [OF this] d T cx busy inv' show False
      by simp
  qed
qed

lemma pollLoop_busy:
  assumes "0 < d" "int d < T" "ctx_Done cx = None" "lr \<le> now" "I (svc w)"
    and "\<And>tok s. I s \<Longrightarrow> fst (fst (Event_IsBeingProcessed c tok s)) = Inr True
                          \<and> I (snd (Event_IsBeingProcessed c tok s))"
  shows "pollLoop c d T cx rnd token now lr k w = None"
proof (cases "pollLoop c d T cx rnd token now lr k w")
  case None
  then show ?thesis .
next
  case (Some y)
  from pollLoop_busy_aux [OF Some, of I] assms show ?thesis
    by blast
qed

lemma fake_busy_forever:
  assumes "busy (svc w)"
  shows "pollTask fake_dt rnd background token w = None"
proof -
  have "pollLoop fake_Client (nat second) (3 * second) background rnd token 0 0 0 w = None"
  proof (rule pollLoop_busy [where I = busy])
    show "0 < nat second" by (simp add: second_def)
    show "int (nat second) < 3 * second" by (simp add: second_def)
    show "ctx_Done background = None" by (simp add: background_def)
    show "(0::nat) \<le> 0" by simp
    show "busy (svc w)" by (rule assms)
    show "fst (fst (Event_IsBeingProcessed fake_Client tok s)) = Inr True
          \<and> busy (snd (Event_IsBeingProcessed fake_Client tok s))" if "busy s" for tok s
      using that by (simp add: fake_Client_def fake_IsBeingProcessed_def)
  qed
  then show ?thesis
    by (simp add: pollTask_def fake_dt_def second_def)
qed

lemma fake_Client_poll: "Event_IsBeingProcessed fake_Client = fake_IsBeingProcessed"
  by (simp add: fake_Client_def)

lemma pollLoop_fake_tick:
  assumes "lr \<le> now"
  shows "pollLoop fake_Client 1000000000 3000000000 background rnd token now lr k w =
     (case IsBeingProcessed fake_Client token w of
        ((Inl err, elapsed), w') \<Rightarrow> Some (Returns err, tickAt 1000000000 now lr + elapsed, w')
      | ((Inr processing, elapsed), w') \<Rightarrow>
          if \<not> processing then Some (ReturnsNil, tickAt 1000000000 now lr + elapsed, w')
          else pollLoop fake_Client 1000000000 3000000000 background rnd token
                 (tickAt 1000000000 now lr + elapsed) (tickAt 1000000000 now lr) (k + 1) w')"
proof -
  have "select 1000000000 3000000000 background (rnd k) now lr
          = (tickAt 1000000000 now lr, Case_Tick)"
    by (rule select_tick_first) (simp_all add: background_def assms)
  then show ?thesis
    by (subst pollLoop.simps) simp
qed





subsection \<open>What each operation adds to the trace\<close>

lemma Lookup_world:
  "fst (Lookup c n v w) = fst (Project_Lookup c n v (svc w))"
  "trace (snd (Lookup c n v w)) = trace w @ [Client_Lookup n v]"
  "svc (snd (Lookup c n v w)) = snd (Project_Lookup c n v (svc w))"
  by (simp_all add: Lookup_def split: prod.splits)

lemma Create_world:
  "fst (Create c p w) = fst (Project_Create c p (svc w))"
  "trace (snd (Create c p w)) = trace w @ [Client_Create p]"
  by (simp_all add: Create_def split: prod.splits)

lemma Update_world:
  "fst (Update c p w) = fst (Project_Update c p (svc w))"
  "trace (snd (Update c p w)) = trace w @ [Client_Update p]"
  by (simp_all add: Update_def split: prod.splits)

lemma Upload_world:
  "fst (Upload c rq w) = fst (BOM_Upload c rq (svc w))"
  "trace (snd (Upload c rq w)) = trace w @ [Client_Upload rq]"
  by (simp_all add: Upload_def split: prod.splits)

lemma IsBeingProcessed_world:
  "trace (snd (IsBeingProcessed c token w)) = trace w @ [Client_IsBeingProcessed token]"
  by (simp add: IsBeingProcessed_def split: prod.splits)

lemma record_event_world:
  "trace (record_event e w) = trace w @ [e]" "svc (record_event e w) = svc w"
  by (simp_all add: record_event_def)

lemma appendTags_eq: "appendTags existing tags = existing @ map Tag tags"
  unfolding appendTags_def by (induction tags arbitrary: existing) simp_all

lemma IsLatest_trace:
  "trace (snd (IsLatest dt n v ts w)) = trace w @ [Call_IsLatest n v ts, Client_Lookup n v]"
proof (cases "Lookup (Client dt) n v (record_event (Call_IsLatest n v ts) w)")
  case (Pair r w1)
  then have "trace w1 = trace w @ [Call_IsLatest n v ts, Client_Lookup n v]"
    using Lookup_world(2) [of "Client dt" n v "record_event (Call_IsLatest n v ts) w"]
    by (simp add: record_event_world)
  then show ?thesis
    using Pair by (cases r) (simp_all add: IsLatest_def)
qed

lemma ensureProject_trace:
  "\<exists>evs. trace (snd (ensureProject c n v w)) = trace w @ evs \<and> list_all is_query evs"
proof (cases "Lookup c n v w")
  case L1: (Pair r1 w1)
  have t1: "trace w1 = trace w @ [Client_Lookup n v]"
    using Lookup_world(2) [of c n v w] L1 by simp
  show ?thesis
  proof (cases r1)
    case (Inr p)
    then show ?thesis using L1 t1 by (simp add: ensureProject_def)
  next
    case (Inl e)
    let ?np = "\<lparr>UUID = [], Name = n, Version = v, Active = True, Tags = [],
                LastBOMImport = 0\<rparr>"
    show ?thesis
    proof (cases "Create c ?np w1")
      case C: (Pair r2 w2)
      have t2: "trace w2 = trace w1 @ [Client_Create ?np]"
        using Create_world(2) [of c ?np w1] C by simp
      show ?thesis
      proof (cases r2)
        case e2: (Inl e2)
        then show ?thesis using L1 Inl C t1 t2 by (simp add: ensureProject_def)
      next
        case (Inr created)
        show ?thesis
        proof (cases "Lookup c n v w2")
          case L2: (Pair r3 w3)
          have t3: "trace w3 = trace w2 @ [Client_Lookup n v]"
            using Lookup_world(2) [of c n v w2] L2 by simp
          show ?thesis
            using L1 Inl C Inr L2 t1 t2 t3 by (cases r3) (simp_all add: ensureProject_def)
        qed
      qed
    qed
  qed
qed

lemma pollLoop_trace:
  assumes "pollLoop c d T cx rnd token now lr k w = Some y"
  shows "\<exists>evs. trace (snd (snd y)) = trace w @ evs \<and> list_all is_query evs"
proof (rule pollLoop.raw_induct [where P = "\<lambda>c d T cx rnd token now lr k w y.
         \<exists>evs. trace (snd (snd y)) = trace w @ evs \<and> list_all is_query evs", OF _ assms],
    goal_cases)
  case (1 pollLoop' c d T cx rnd token now lr k w y)
  obtain wake sc where sel: "select d T cx (rnd k) now lr = (wake, sc)"
    by (cases "select d T cx (rnd k) now lr")
  show ?case
  proof (cases sc)
    case Case_Timeout
    with 1(2) sel show ?thesis by auto
  next
    case Case_Done
    with 1(2) sel show ?thesis by auto
  next
    case Case_Tick
    obtain r e w1 where call: "IsBeingProcessed c token w = ((r, e), w1)"
      by (cases "IsBeingProcessed c token w") auto
    have t1: "trace w1 = trace w @ [Client_IsBeingProcessed token]"
      using IsBeingProcessed_world [of c token w] call by simp
    show ?thesis
    proof (cases r)
      case (Inl err)
      with 1(2) sel Case_Tick call t1 show ?thesis by auto
    next
      case (Inr processing)
      show ?thesis
      proof (cases processing)
        case False
        with 1(2) sel Case_Tick call t1 Inr show ?thesis by auto
      next
        case True
        with 1(2) sel Case_Tick call Inr
        have "pollLoop' c d T cx rnd token (wake + e) wake (k + 1) w1 = Some y"
          by simp
        from 1(1) [OF this] obtain evs
          where "trace (snd (snd y)) = trace w1 @ evs" "list_all is_query evs"
          by blast
        then show ?thesis
          using t1 by auto
      qed
    qed
  qed
qed

lemma pollTask_trace:
  assumes "pollTask dt rnd cx token w = Some (r, t, w')"
  shows "\<exists>evs. trace w' = trace w @ evs \<and> list_all is_query evs"
proof (cases "SBOMUploadCheckInterval dt \<le> 0")
  case True
  with assms show ?thesis by (simp add: pollTask_def)
next
  case False
  with assms have "pollLoop (Client dt) (nat (SBOMUploadCheckInterval dt)) (SBOMUploadTimeout dt)
             cx rnd token 0 0 0 w = Some (r, t, w')"
    by (simp add: pollTask_def)
  from pollLoop_trace [OF this] show ?thesis by simp
qed


lemma UploadBOM_trace:
  assumes "UploadBOM dt rnd cx n v pn pv bom fl w = Some (r, w')"
  shows "\<exists>evs1 evs2.
           trace w' = trace w @ Call_UploadBOM n v pn pv bom fl # evs1
             @ (case fst (ensureProject (Client dt) n v
                       (record_event (Call_UploadBOM n v pn pv bom fl) w)) of
                  Inl e \<Rightarrow> []
                | Inr p \<Rightarrow> [Client_Upload (uploadRequest p v pn pv bom fl)])
             @ evs2
           \<and> list_all is_query evs1 \<and> list_all is_query evs2"
proof -
  let ?w0 = "record_event (Call_UploadBOM n v pn pv bom fl) w"
  obtain r1 w1 where E: "ensureProject (Client dt) n v ?w0 = (r1, w1)"
    by (cases "ensureProject (Client dt) n v ?w0")
  obtain evs1 where t1: "trace w1 = trace w @ Call_UploadBOM n v pn pv bom fl # evs1"
    and q1: "list_all is_query evs1"
    using ensureProject_trace [of "Client dt" n v ?w0] E by (auto simp: record_event_world)
  show ?thesis
  proof (cases r1)
    case (Inl e)
    with assms E have "w' = w1"
      by (simp add: UploadBOM_def)
    then show ?thesis
      using t1 q1 E Inl by (intro exI [of _ evs1] exI [of _ "[]"]) simp
  next
    case (Inr p)
    let ?rq = "uploadRequest p v pn pv bom fl"
    obtain r2 w2 where U: "Upload (Client dt) ?rq w1 = (r2, w2)"
      by (cases "Upload (Client dt) ?rq w1")
    have t2: "trace w2 = trace w1 @ [Client_Upload ?rq]"
      using Upload_world(2) [of "Client dt" ?rq w1] U by simp
    show ?thesis
    proof (cases r2)
      case e: (Inl e)
      with assms E Inr U have "w' = w2"
        by (simp add: UploadBOM_def uploadRequest_def)
      then show ?thesis
        using t1 t2 q1 E Inr by (intro exI [of _ evs1] exI [of _ "[]"]) simp
    next
      case token: (Inr token)
      with assms E Inr U obtain t where "pollTask dt rnd cx token w2 = Some (r, t, w')"
        by (auto simp: UploadBOM_def uploadRequest_def split: option.splits)
      from pollTask_trace [OF this] obtain evs2
        where "trace w' = trace w2 @ evs2" "list_all is_query evs2"
        by blast
      then show ?thesis
        using t1 t2 q1 E Inr by (intro exI [of _ evs1] exI [of _ evs2]) simp
    qed
  qed
qed

lemma UploadBOM_nil_ensured:
  assumes "UploadBOM dt rnd cx n v pn pv bom fl w = Some (ReturnsNil, w')"
  shows "\<exists>p. fst (ensureProject (Client dt) n v
                    (record_event (Call_UploadBOM n v pn pv bom fl) w)) = Inr p"
  using assms
  by (cases "ensureProject (Client dt) n v (record_event (Call_UploadBOM n v pn pv bom fl) w)")
     (auto simp: UploadBOM_def split: sum.splits)

lemma query_filters:
  assumes "list_all is_query evs"
  shows "filter is_method_call evs = []" "filter is_tagging evs = []"
    "filter is_submission evs = []"
proof -
  have "\<not> is_method_call e \<and> \<not> is_tagging e \<and> \<not> is_submission e" if "is_query e" for e
    using that by (cases e) simp_all
  with assms show "filter is_method_call evs = []" "filter is_tagging evs = []"
    "filter is_submission evs = []"
    by (auto simp: list_all_iff filter_empty_conv)
qed

lemma UploadBOM_calls:
  assumes "UploadBOM dt rnd cx n v pn pv bom fl w = Some (r, w')"
  shows "method_calls (trace w') = method_calls (trace w) @ [Call_UploadBOM n v pn pv bom fl]"
    and "tagging (trace w') = tagging (trace w)"
    and "submissions (trace w') = submissions (trace w)
           @ (case fst (ensureProject (Client dt) n v
                     (record_event (Call_UploadBOM n v pn pv bom fl) w)) of
                Inl e \<Rightarrow> []
              | Inr p \<Rightarrow> [Client_Upload (uploadRequest p v pn pv bom fl)])"
proof -
  from UploadBOM_trace [OF assms] obtain evs1 evs2 where
    t: "trace w' = trace w @ Call_UploadBOM n v pn pv bom fl # evs1
             @ (case fst (ensureProject (Client dt) n v
                       (record_event (Call_UploadBOM n v pn pv bom fl) w)) of
                  Inl e \<Rightarrow> []
                | Inr p \<Rightarrow> [Client_Upload (uploadRequest p v pn pv bom fl)])
             @ evs2"
    and q: "list_all is_query evs1" "list_all is_query evs2"
    by blast
  show "method_calls (trace w') = method_calls (trace w) @ [Call_UploadBOM n v pn pv bom fl]"
    by (simp add: t method_calls_def query_filters(1) [OF q(1)] query_filters(1) [OF q(2)]
        split: sum.splits)
  show "tagging (trace w') = tagging (trace w)"
    by (simp add: t tagging_def query_filters(2) [OF q(1)] query_filters(2) [OF q(2)]
        split: sum.splits)
  show "submissions (trace w') = submissions (trace w)
           @ (case fst (ensureProject (Client dt) n v
                     (record_event (Call_UploadBOM n v pn pv bom fl) w)) of
                Inl e \<Rightarrow> []
              | Inr p \<Rightarrow> [Client_Upload (uploadRequest p v pn pv bom fl)])"
    by (simp add: t submissions_def query_filters(3) [OF q(1)] query_filters(3) [OF q(2)]
        split: sum.splits)
qed

lemma AddTagsToProject_trace:
  "trace (snd (AddTagsToProject dt n v tags w)) =
     trace w @ [Call_AddTagsToProject n v tags, Client_Lookup n v]
       @ (case fst (Project_Lookup (Client dt) n v (svc w)) of
            Inl e \<Rightarrow> []
          | Inr p \<Rightarrow> [Client_Update (p\<lparr>Tags := Tags p @ map Tag tags\<rparr>)])"
proof -
  let ?w0 = "record_event (Call_AddTagsToProject n v tags) w"
  obtain r1 w1 where L: "Lookup (Client dt) n v ?w0 = (r1, w1)"
    by (cases "Lookup (Client dt) n v ?w0")
  have r1: "r1 = fst (Project_Lookup (Client dt) n v (svc w))"
    using Lookup_world(1) [of "Client dt" n v ?w0] L by (simp add: record_event_world)
  have t1: "trace w1 = trace w @ [Call_AddTagsToProject n v tags, Client_Lookup n v]"
    using Lookup_world(2) [of "Client dt" n v ?w0] L by (simp add: record_event_world)
  show ?thesis
  proof (cases r1)
    case (Inl e)
    then show ?thesis
      using L t1 r1 by (simp add: AddTagsToProject_def)
  next
    case (Inr p)
    let ?p = "p\<lparr>Tags := Tags p @ map Tag tags\<rparr>"
    obtain r2 w2 where U: "Update (Client dt) ?p w1 = (r2, w2)"
      by (cases "Update (Client dt) ?p w1")
    have "trace w2 = trace w1 @ [Client_Update ?p]"
      using Update_world(2) [of "Client dt" ?p w1] U by simp
    then show ?thesis
      using L t1 r1 [symmetric] Inr U by (cases r2) (simp_all add: AddTagsToProject_def appendTags_eq)
  qed
qed

lemma arbitrate_world:
  "fst (arbitrate x dt rs w) =
     (case ParseInt (UpdateTimestamp x (sbom rs)) of
        None \<Rightarrow> True
      | Some ts \<Rightarrow> fst (IsLatest dt (projectName rs) (projectVersion rs) ts w))"
  "trace (snd (arbitrate x dt rs w)) = trace w @
     (case ParseInt (UpdateTimestamp x (sbom rs)) of
        None \<Rightarrow> []
      | Some ts \<Rightarrow> [Call_IsLatest (projectName rs) (projectVersion rs) ts,
                    Client_Lookup (projectName rs) (projectVersion rs)])"
  by (simp_all add: arbitrate_def IsLatest_trace split: option.splits)

lemma Run_resolved:
  assumes "resolve x (config u) input = Inr rs"
    and "Run x rnd u cx input w = Some (r, w')"
  shows "\<exists>ur w2. UploadBOM (dtrack u) rnd cx (projectName rs) (projectVersion rs)
                    (parentName rs) (parentVersion rs) (BOM x (sbom rs))
                    (fst (arbitrate x (dtrack u) rs w)) (snd (arbitrate x (dtrack u) rs w))
                  = Some (ur, w2)
               \<and> (r, w') = (if ur = ReturnsNil \<and> projectTags rs \<noteq> []
                           then AddTagsToProject (dtrack u) (projectName rs) (projectVersion rs)
                                  (projectTags rs) w2
                           else (ur, w2))"
proof -
  obtain fl w1 where A: "arbitrate x (dtrack u) rs w = (fl, w1)"
    by (cases "arbitrate x (dtrack u) rs w")
  let ?up = "UploadBOM (dtrack u) rnd cx (projectName rs) (projectVersion rs)
               (parentName rs) (parentVersion rs) (BOM x (sbom rs)) fl w1"
  from assms A have "?up \<noteq> None"
    by (auto simp: Run_def split: option.splits)
  then obtain ur w2 where U: "?up = Some (ur, w2)"
    by (cases ?up) auto
  have "(r, w') = (if ur = ReturnsNil \<and> projectTags rs \<noteq> []
                   then AddTagsToProject (dtrack u) (projectName rs) (projectVersion rs)
                          (projectTags rs) w2
                   else (ur, w2))"
    using assms A U by (cases ur) (auto simp: Run_def split: if_splits)
  then show ?thesis
    using A U by simp
qed

subsection \<open>The steps of UploadBOM and Run\<close>

lemma Create_svc: "svc (snd (Create c p w)) = snd (Project_Create c p (svc w))"
  by (simp add: Create_def split: prod.splits)

lemma ensureProject_alt:
  "ensureProject c n v w =
     (case Lookup c n v w of
        (Inr p, w1) \<Rightarrow> (Inr p, w1)
      | (Inl err, w1) \<Rightarrow>
          (case Create c (newProject n v) w1 of
             (Inl err, w2) \<Rightarrow> (Inl err, w2)
           | (Inr created, w2) \<Rightarrow>
               (case Lookup c n v w2 of
                  (Inl err, w3) \<Rightarrow> (Inl err, w3)
                | (Inr inner, w3) \<Rightarrow> (Inr zeroProject, w3))))"
  by (simp add: ensureProject_def newProject_def split: prod.splits sum.splits)

lemma ensureProject_found:
  assumes "fst (Project_Lookup c n v (svc w)) = Inr p"
  shows "fst (ensureProject c n v w) = Inr p"
    and "trace (snd (ensureProject c n v w)) = trace w @ [Client_Lookup n v]"
proof -
  obtain w1 where L: "Lookup c n v w = (Inr p, w1)"
    using assms Lookup_world(1) [of c n v w] by (cases "Lookup c n v w") simp
  then have "trace w1 = trace w @ [Client_Lookup n v]"
    using Lookup_world(2) [of c n v w] by simp
  then show "fst (ensureProject c n v w) = Inr p"
    and "trace (snd (ensureProject c n v w)) = trace w @ [Client_Lookup n v]"
    using L by (simp_all add: ensureProject_def)
qed

lemma ensureProject_created:
  assumes "fst (Project_Lookup c n v (svc w)) = Inl e"
  shows "fst (Project_Create c (newProject n v) (snd (Project_Lookup c n v (svc w)))) = Inl e'
         \<Longrightarrow> fst (ensureProject c n v w) = Inl e'
           \<and> trace (snd (ensureProject c n v w))
               = trace w @ [Client_Lookup n v, Client_Create (newProject n v)]"
    and "fst (Project_Create c (newProject n v) (snd (Project_Lookup c n v (svc w)))) = Inr created
         \<Longrightarrow> fst (ensureProject c n v w)
               = (case fst (Project_Lookup c n v
                    (snd (Project_Create c (newProject n v)
                            (snd (Project_Lookup c n v (svc w)))))) of
                    Inl err \<Rightarrow> Inl err
                  | Inr inner \<Rightarrow> Inr zeroProject)
           \<and> trace (snd (ensureProject c n v w))
               = trace w @ [Client_Lookup n v, Client_Create (newProject n v), Client_Lookup n v]"
proof -
  obtain w1 where L: "Lookup c n v w = (Inl e, w1)"
    using assms Lookup_world(1) [of c n v w] by (cases "Lookup c n v w") simp
  have t1: "trace w1 = trace w @ [Client_Lookup n v]"
    and s1: "svc w1 = snd (Project_Lookup c n v (svc w))"
    using Lookup_world(2,3) [of c n v w] L by simp_all
  obtain r2 w2 where C: "Create c (newProject n v) w1 = (r2, w2)"
    by (cases "Create c (newProject n v) w1")
  have r2: "r2 = fst (Project_Create c (newProject n v) (snd (Project_Lookup c n v (svc w))))"
    and t2: "trace w2 = trace w1 @ [Client_Create (newProject n v)]"
    and s2: "svc w2 = snd (Project_Create c (newProject n v) (snd (Project_Lookup c n v (svc w))))"
    using Create_world [of c "newProject n v" w1] Create_svc [of c "newProject n v" w1] C s1
    by simp_all
  show "fst (ensureProject c n v w) = Inl e'
           \<and> trace (snd (ensureProject c n v w))
               = trace w @ [Client_Lookup n v, Client_Create (newProject n v)]"
    if "fst (Project_Create c (newProject n v) (snd (Project_Lookup c n v (svc w)))) = Inl e'"
    using that L C r2 t1 t2 by (simp add: ensureProject_alt)
  show "fst (ensureProject c n v w)
               = (case fst (Project_Lookup c n v
                    (snd (Project_Create c (newProject n v)
                            (snd (Project_Lookup c n v (svc w)))))) of
                    Inl err \<Rightarrow> Inl err
                  | Inr inner \<Rightarrow> Inr zeroProject)
           \<and> trace (snd (ensureProject c n v w))
               = trace w @ [Client_Lookup n v, Client_Create (newProject n v), Client_Lookup n v]"
    if cr: "fst (Project_Create c (newProject n v) (snd (Project_Lookup c n v (svc w)))) = Inr created"
  proof -
    obtain r3 w3 where L2: "Lookup c n v w2 = (r3, w3)"
      by (cases "Lookup c n v w2")
    have r3: "fst (Project_Lookup c n v (svc w2)) = r3"
      and t3: "trace w3 = trace w2 @ [Client_Lookup n v]"
      using Lookup_world(1,2) [of c n v w2] L2 by simp_all
    have "ensureProject c n v w
        = (case r3 of Inl err \<Rightarrow> (Inl err, w3) | Inr inner \<Rightarrow> (Inr zeroProject, w3))"
      using cr L C r2 L2 by (simp add: ensureProject_alt)
    then show ?thesis
      using r3 t1 t2 t3 s2 by (cases r3) simp_all
  qed
qed

lemma UploadBOM_not_ensured:
  assumes "fst (ensureProject (Client dt) n v
                  (record_event (Call_UploadBOM n v pn pv bom fl) w)) = Inl e"
  shows "UploadBOM dt rnd cx n v pn pv bom fl w
           = Some (Returns e, snd (ensureProject (Client dt) n v
                                     (record_event (Call_UploadBOM n v pn pv bom fl) w)))"
  using assms
  by (cases "ensureProject (Client dt) n v (record_event (Call_UploadBOM n v pn pv bom fl) w)")
     (simp add: UploadBOM_def)

lemma UploadBOM_submits:
  assumes "fst (ensureProject (Client dt) n v
                  (record_event (Call_UploadBOM n v pn pv bom fl) w)) = Inr p"
  shows "UploadBOM dt rnd cx n v pn pv bom fl w
           = submitAndPoll dt rnd cx (uploadRequest p v pn pv bom fl)
               (snd (ensureProject (Client dt) n v
                       (record_event (Call_UploadBOM n v pn pv bom fl) w)))"
  using assms
  by (cases "ensureProject (Client dt) n v (record_event (Call_UploadBOM n v pn pv bom fl) w)")
     (simp add: UploadBOM_def submitAndPoll_def uploadRequest_def)

lemma submitAndPoll_trace:
  assumes "submitAndPoll dt rnd cx rq w1 = Some (r, w')"
  shows "\<exists>evs. trace w' = trace w1 @ Client_Upload rq # evs"
proof -
  obtain r2 w2 where U: "Upload (Client dt) rq w1 = (r2, w2)"
    by (cases "Upload (Client dt) rq w1")
  have t2: "trace w2 = trace w1 @ [Client_Upload rq]"
    using Upload_world(2) [of "Client dt" rq w1] U by simp
  show ?thesis
  proof (cases r2)
    case (Inl e)
    with assms U have "w' = w2"
      by (simp add: submitAndPoll_def)
    then show ?thesis
      using t2 by simp
  next
    case (Inr token)
    with assms U obtain t where "pollTask dt rnd cx token w2 = Some (r, t, w')"
      by (auto simp: submitAndPoll_def split: option.splits)
    from pollTask_trace [OF this] obtain evs where "trace w' = trace w2 @ evs"
      by blast
    then show ?thesis
      using t2 by simp
  qed
qed

text \<open>After a create the request is made for the zero project (lines 46, 56 and 66), not
  for the project the second lookup found.\<close>

lemma UploadBOM_after_create:
  assumes "fst (Project_Lookup (Client dt) n v (svc w)) = Inl e"
    and "fst (Project_Create (Client dt) (newProject n v)
               (snd (Project_Lookup (Client dt) n v (svc w)))) = Inr created"
    and "fst (Project_Lookup (Client dt) n v
               (snd (Project_Create (Client dt) (newProject n v)
                       (snd (Project_Lookup (Client dt) n v (svc w)))))) = Inr found"
  shows "UploadBOM dt rnd cx n v pn pv bom fl w
           = submitAndPoll dt rnd cx (uploadRequest zeroProject v pn pv bom fl)
               (snd (ensureProject (Client dt) n v
                       (record_event (Call_UploadBOM n v pn pv bom fl) w)))"
proof -
  let ?w0 = "record_event (Call_UploadBOM n v pn pv bom fl) w"
  have l: "fst (Project_Lookup (Client dt) n v (svc ?w0)) = Inl e"
    and c: "fst (Project_Create (Client dt) (newProject n v)
               (snd (Project_Lookup (Client dt) n v (svc ?w0)))) = Inr created"
    using assms by (simp_all add: record_event_world)
  from ensureProject_created(2) [OF l c] assms(3)
  have "fst (ensureProject (Client dt) n v ?w0) = Inr zeroProject"
    by (simp add: record_event_world)
  then show ?thesis
    by (rule UploadBOM_submits)
qed

lemma UploadBOM_ensured:
  assumes "fst (ensureProject (Client dt) n v
                  (record_event (Call_UploadBOM n v pn pv bom fl) w)) = Inr p"
    and "UploadBOM dt rnd cx n v pn pv bom fl w = Some (r, w')"
  shows "\<exists>evs. trace w' = trace (snd (ensureProject (Client dt) n v
                                     (record_event (Call_UploadBOM n v pn pv bom fl) w)))
                   @ Client_Upload (uploadRequest p v pn pv bom fl) # evs"
proof -
  let ?w0 = "record_event (Call_UploadBOM n v pn pv bom fl) w"
  obtain w1 where E: "ensureProject (Client dt) n v ?w0 = (Inr p, w1)"
    using assms(1) by (cases "ensureProject (Client dt) n v ?w0") simp
  let ?rq = "uploadRequest p v pn pv bom fl"
  obtain r2 w2 where U: "Upload (Client dt) ?rq w1 = (r2, w2)"
    by (cases "Upload (Client dt) ?rq w1")
  have t2: "trace w2 = trace w1 @ [Client_Upload ?rq]"
    using Upload_world(2) [of "Client dt" ?rq w1] U by simp
  show ?thesis
  proof (cases r2)
    case (Inl e)
    with assms(2) E U have "w' = w2"
      by (simp add: UploadBOM_def uploadRequest_def)
    then show ?thesis
      using t2 E by simp
  next
    case (Inr token)
    with assms(2) E U obtain t where "pollTask dt rnd cx token w2 = Some (r, t, w')"
      by (auto simp: UploadBOM_def uploadRequest_def split: option.splits)
    from pollTask_trace [OF this] obtain evs where "trace w' = trace w2 @ evs"
      by blast
    then show ?thesis
      using t2 E by simp
  qed
qed

lemma Run_after_resolve:
  assumes "resolve x (config u) input = Inr rs"
  shows "Run x rnd u cx input w =
     (case UploadBOM (dtrack u) rnd cx (projectName rs) (projectVersion rs) (parentName rs)
             (parentVersion rs) (BOM x (sbom rs)) (fst (arbitrate x (dtrack u) rs w))
             (snd (arbitrate x (dtrack u) rs w)) of
        None \<Rightarrow> None
      | Some (ReturnsNil, w2) \<Rightarrow>
          if length (projectTags rs) > 0
          then Some (AddTagsToProject (dtrack u) (projectName rs) (projectVersion rs)
                       (projectTags rs) w2)
          else Some (ReturnsNil, w2)
      | Some (Returns err, w2) \<Rightarrow> Some (Returns err, w2)
      | Some (Panics, w2) \<Rightarrow> Some (Panics, w2))"
  using assms by (cases "arbitrate x (dtrack u) rs w") (simp add: Run_def)

subsection \<open>Runs against the example service\<close>

lemma renderTags_literal: "renderTags (\<lambda>s. Inr s) tags acc = Inr (acc @ tags)"
  by (induction tags arbitrary: acc) simp_all

lemma resolve_fixed:
  "resolve (fixed_packages (Inr (''update'', ts))) (fake_config tags) input =
     Inr \<lparr>sbom = (''update'', ts), projectName = ''myproj'', projectVersion = ''v1'',
          projectTags = tags, parentName = [], parentVersion = []\<rparr>"
  by (simp add: resolve_def fixed_packages_def fake_config_def renderTags_literal)

lemma pollTask_fake_done:
  assumes "\<not> busy s" and "stillProcessing s = 0"
  shows "pollTask fake_dt rnd background token \<lparr>svc = s, trace = tr\<rparr> =
     Some (ReturnsNil, 1000000000 + rtt s,
           \<lparr>svc = s, trace = tr @ [Client_IsBeingProcessed token]\<rparr>)"
  using assms
  by (simp add: pollTask_def fake_dt_def second_def pollLoop_fake_tick IsBeingProcessed_def
      fake_Client_poll fake_IsBeingProcessed_def tickAt_def nextTick_def)

lemma ParseInt_examples:
  "ParseInt ''1700000000'' = Some 1700000000" "ParseInt ''x'' = None"
  by (simp_all add: ParseInt_def ParseUint_def)

lemma fixture_fields:
  "BOM (fixed_packages parsed) r = [1, 2, 3]"
  "UpdateTimestamp (fixed_packages parsed) r = snd r"
  "dtrack (fake_uploader tags) = fake_dt"
  "config (fake_uploader tags) = fake_config tags"
  "Client fake_dt = fake_Client"
  "Project_Lookup fake_Client = fake_Lookup"
  "Project_Create fake_Client = fake_Create"
  "Project_Update fake_Client = fake_Update"
  "BOM_Upload fake_Client = fake_Upload"
  by (simp_all add: fixed_packages_def fake_uploader_def fake_dt_def fake_Client_def)

lemma Run_example_parsable:
  "Run (fixed_packages (Inr (''update'', ''1700000000''))) first_ready (fake_uploader [])
     background [] (world0 tracked) =
   Some (ReturnsNil,
     \<lparr>svc = tracked\<lparr>uploads := [uploadRequest myproj ''v1'' [] [] [1, 2, 3] False]\<rparr>,
      trace = [Call_IsLatest ''myproj'' ''v1'' 1700000000, Client_Lookup ''myproj'' ''v1'',
               Call_UploadBOM ''myproj'' ''v1'' [] [] [1, 2, 3] False,
               Client_Lookup ''myproj'' ''v1'',
               Client_Upload (uploadRequest myproj ''v1'' [] [] [1, 2, 3] False),
               Client_IsBeingProcessed ''token'']\<rparr>)"
  by (simp add: Run_def fixture_fields resolve_fixed arbitrate_def ParseInt_examples
      IsLatest_def Lookup_def record_event_def world0_def
      UploadBOM_def ensureProject_def Upload_def
      pollTask_fake_done uploadRequest_def tracked_def empty_service_def myproj_def
      fake_Lookup_def fake_Upload_def)

lemma Run_example_unparsable:
  "Run (fixed_packages (Inr (''update'', ''x''))) first_ready (fake_uploader [''a'', ''a''])
     background [] (world0 tracked) =
   Some (ReturnsNil,
     \<lparr>svc = tracked\<lparr>projects := [myproj\<lparr>Tags := [Tag ''old'', Tag ''a'', Tag ''a'']\<rparr>],
                     uploads := [uploadRequest myproj ''v1'' [] [] [1, 2, 3] True]\<rparr>,
      trace = [Call_UploadBOM ''myproj'' ''v1'' [] [] [1, 2, 3] True,
               Client_Lookup ''myproj'' ''v1'',
               Client_Upload (uploadRequest myproj ''v1'' [] [] [1, 2, 3] True),
               Client_IsBeingProcessed ''token'',
               Call_AddTagsToProject ''myproj'' ''v1'' [''a'', ''a''],
               Client_Lookup ''myproj'' ''v1'',
               Client_Update (myproj\<lparr>Tags := [Tag ''old'', Tag ''a'', Tag ''a'']\<rparr>)]\<rparr>)"
  by (simp add: Run_def fixture_fields resolve_fixed arbitrate_def ParseInt_examples
      Lookup_def record_event_def world0_def
      UploadBOM_def ensureProject_def Upload_def AddTagsToProject_def Update_def appendTags_eq
      pollTask_fake_done uploadRequest_def tracked_def empty_service_def myproj_def
      fake_Lookup_def fake_Upload_def fake_Update_def)

lemma UploadBOM_example:
  "UploadBOM fake_dt first_ready background ''myproj'' ''v1'' [] [] [1, 2, 3] fl (world0 s) =
   Some (ReturnsNil,
     \<lparr>svc = s\<lparr>uploads := uploads s @ [uploadRequest myproj ''v1'' [] [] [1, 2, 3] fl]\<rparr>,
      trace = [Call_UploadBOM ''myproj'' ''v1'' [] [] [1, 2, 3] fl,
               Client_Lookup ''myproj'' ''v1'',
               Client_Upload (uploadRequest myproj ''v1'' [] [] [1, 2, 3] fl),
               Client_IsBeingProcessed ''token'']\<rparr>)"
  if "projects s = [myproj]" "\<not> busy s" "stillProcessing s = 0"
  using that 
  by (simp add: fixture_fields Lookup_def record_event_def world0_def
      UploadBOM_def ensureProject_def Upload_def 
      pollTask_fake_done uploadRequest_def myproj_def
      fake_Lookup_def fake_Upload_def)

lemma arbitrate_unparsable:
  "arbitrate (fixed_packages (Inr (''update'', ''x''))) dt
     \<lparr>sbom = (''update'', ''x''), projectName = n, projectVersion = v,
      projectTags = tags, parentName = pn, parentVersion = pv\<rparr> w = (True, w)"
  by (simp add: arbitrate_def fixture_fields ParseInt_examples)


section \<open>Properties of the Latest-Version Arbiter\<close>

text \<open>
  Claim C1. When the lookup of the project version succeeds, \<open>IsLatest\<close> returns true
  exactly when the record's \<open>LastBOMImport\<close> is strictly less than the incoming
  timestamp (both read as signed 64-bit integers); when the two are equal it returns false.
\<close>

theorem IsLatest_strictly_older:
  assumes "fst (Project_Lookup (Client dt) name version (svc w)) = Inr project"
  shows "(fst (IsLatest dt name version ts w) \<longleftrightarrow> sint (LastBOMImport project) < sint ts)
       \<and> \<not> fst (IsLatest dt name version (LastBOMImport project) w)"
  using assms
  by (cases "Project_Lookup (Client dt) name version (svc w)")
     (simp add: IsLatest_def Lookup_def record_event_def)

theorem IsLatest_strictly_older_witness:
  "fst (Project_Lookup (Client fake_dt) ''myproj'' ''v1''
          (svc (world0 (empty_service\<lparr>projects := [myproj]\<rparr>)))) = Inr myproj
   \<and> fst (IsLatest fake_dt ''myproj'' ''v1'' 1700000001 (world0 (empty_service\<lparr>projects := [myproj]\<rparr>)))
   \<and> \<not> fst (IsLatest fake_dt ''myproj'' ''v1'' 1700000000 (world0 (empty_service\<lparr>projects := [myproj]\<rparr>)))
   \<and> \<not> fst (IsLatest fake_dt ''myproj'' ''v1'' 1699999999 (world0 (empty_service\<lparr>projects := [myproj]\<rparr>)))"
proof -
  let ?w = "world0 (empty_service\<lparr>projects := [myproj]\<rparr>)"
  have found: "fst (Project_Lookup (Client fake_dt) ''myproj'' ''v1'' (svc ?w)) = Inr myproj"
    by (simp add: fake_dt_def fake_Client_def fake_Lookup_def world0_def empty_service_def
        myproj_def)
  have stamp: "LastBOMImport myproj = 1700000000"
    by (simp add: myproj_def)
  show ?thesis
    using found IsLatest_strictly_older [OF found, of 1700000001]
      IsLatest_strictly_older [OF found, of 1700000000]
      IsLatest_strictly_older [OF found, of 1699999999]
    by (simp add: stamp)
qed

text \<open>
  Claim C5. When the lookup of the project version fails, \<open>IsLatest\<close> returns true,
  whatever the incoming timestamp.
\<close>

theorem IsLatest_unseen_project:
  assumes "fst (Project_Lookup (Client dt) name version (svc w)) = Inl err"
  shows "fst (IsLatest dt name version ts w)"
  using assms
  by (cases "Project_Lookup (Client dt) name version (svc w)")
     (simp add: IsLatest_def Lookup_def record_event_def)

theorem IsLatest_unseen_project_witness:
  "fst (Project_Lookup (Client fake_dt) ''myproj'' ''v1'' (svc (world0 empty_service)))
     = Inl (ErrorString ''project not found'')
   \<and> fst (IsLatest fake_dt ''myproj'' ''v1'' 0 (world0 empty_service))
   \<and> fst (IsLatest fake_dt ''myproj'' ''v1'' (- 5) (world0 empty_service))"
proof -
  have missing: "fst (Project_Lookup (Client fake_dt) ''myproj'' ''v1'' (svc (world0 empty_service)))
     = Inl (ErrorString ''project not found'')"
    by (simp add: fake_dt_def fake_Client_def fake_Lookup_def world0_def empty_service_def)
  show ?thesis
    using missing IsLatest_unseen_project [OF missing, of 0]
      IsLatest_unseen_project [OF missing, of "- 5"]
    by simp
qed

section \<open>Properties of the poll task\<close>

text \<open>
  Claim C2 says that the timeout is one deadline counted from the start of the poll loop.
  In the code every pass of the loop arms a new timer, so a tick that comes before the
  timeout puts the timeout off. With a check interval of one second and a timeout of three
  seconds, against a service that keeps the upload in processing, the poll task and
  \<open>UploadBOM\<close> never return (no timeout error is produced); and against a service that
  finishes at the fifth poll the task returns \<open>nil\<close> after five seconds, two seconds
  after the deadline, having polled at the fourth and the fifth second.
\<close>

theorem poll_timeout_rearmed:
  "pollTask fake_dt first_ready background ''token'' (world0 (empty_service\<lparr>busy := True\<rparr>)) = None
   \<and> UploadBOM fake_dt first_ready background ''myproj'' ''v1'' [] [] [1, 2, 3] True
        (world0 (empty_service\<lparr>projects := [myproj], busy := True\<rparr>)) = None
   \<and> pollTask fake_dt first_ready background ''token'' (world0 (empty_service\<lparr>stillProcessing := 4\<rparr>))
       = Some (ReturnsNil, 5000000000,
               \<lparr>svc = empty_service, trace = [Client_IsBeingProcessed ''token'', Client_IsBeingProcessed ''token'',
                         Client_IsBeingProcessed ''token'', Client_IsBeingProcessed ''token'',
                         Client_IsBeingProcessed ''token'']\<rparr>)"
proof (intro conjI)
  show "pollTask fake_dt first_ready background ''token'' (world0 (empty_service\<lparr>busy := True\<rparr>)) = None"
    by (rule fake_busy_forever) (simp add: world0_def)
  have "pollTask fake_dt first_ready background ''token'' w = None" if "busy (svc w)" for w
    using that by (rule fake_busy_forever)
  then show "UploadBOM fake_dt first_ready background ''myproj'' ''v1'' [] [] [1, 2, 3] True
        (world0 (empty_service\<lparr>projects := [myproj], busy := True\<rparr>)) = None"
    by (simp add: UploadBOM_def ensureProject_def Lookup_def Upload_def record_event_def
        fake_dt_def fake_Client_def fake_Lookup_def fake_Upload_def world0_def empty_service_def
        myproj_def)
  show "pollTask fake_dt first_ready background ''token'' (world0 (empty_service\<lparr>stillProcessing := 4\<rparr>))
       = Some (ReturnsNil, 5000000000,
               \<lparr>svc = empty_service, trace = [Client_IsBeingProcessed ''token'', Client_IsBeingProcessed ''token'',
                         Client_IsBeingProcessed ''token'', Client_IsBeingProcessed ''token'',
                         Client_IsBeingProcessed ''token'']\<rparr>)"
    by (simp add: pollTask_def fake_dt_def second_def pollLoop_fake_tick IsBeingProcessed_def
        fake_Client_poll fake_IsBeingProcessed_def world0_def empty_service_def
        tickAt_def nextTick_def)
qed




section \<open>Properties of UploadBOM\<close>

text \<open>
  Claim C3, amended. \<open>UploadBOM\<close> first looks the project up by name and version. When
  the lookup succeeds it submits the BOM for the project found, without creating anything.
  When the lookup fails it asks the service to create the project (active, nothing but name
  and version set). A failed create ends the call with the error of the create: there is no
  second lookup and no upload. After a successful create the project is looked up again; a
  failure of this lookup is returned, and otherwise \<open>UploadBOM\<close> goes on to submit the
  BOM. The statement leaves open which project identifier the request carries after a
  create.
\<close>

theorem UploadBOM_ensures_project:
  "(\<forall>p. fst (Project_Lookup (Client dt) n v (svc w)) = Inr p \<longrightarrow>
      (\<exists>w1. trace w1 = trace w @ [Call_UploadBOM n v pn pv bom fl, Client_Lookup n v]
          \<and> UploadBOM dt rnd cx n v pn pv bom fl w
              = submitAndPoll dt rnd cx (uploadRequest p v pn pv bom fl) w1))
   \<and> (\<forall>e e'. fst (Project_Lookup (Client dt) n v (svc w)) = Inl e
        \<and> fst (Project_Create (Client dt) (newProject n v)
                 (snd (Project_Lookup (Client dt) n v (svc w)))) = Inl e' \<longrightarrow>
      (\<exists>w'. UploadBOM dt rnd cx n v pn pv bom fl w = Some (Returns e', w')
          \<and> trace w' = trace w
              @ [Call_UploadBOM n v pn pv bom fl, Client_Lookup n v,
                 Client_Create (newProject n v)]))
   \<and> (\<forall>e created e'. fst (Project_Lookup (Client dt) n v (svc w)) = Inl e
        \<and> fst (Project_Create (Client dt) (newProject n v)
                 (snd (Project_Lookup (Client dt) n v (svc w)))) = Inr created
        \<and> fst (Project_Lookup (Client dt) n v
                 (snd (Project_Create (Client dt) (newProject n v)
                         (snd (Project_Lookup (Client dt) n v (svc w)))))) = Inl e' \<longrightarrow>
      (\<exists>w'. UploadBOM dt rnd cx n v pn pv bom fl w = Some (Returns e', w')
          \<and> trace w' = trace w
              @ [Call_UploadBOM n v pn pv bom fl, Client_Lookup n v,
                 Client_Create (newProject n v), Client_Lookup n v]))
   \<and> (\<forall>e created found. fst (Project_Lookup (Client dt) n v (svc w)) = Inl e
        \<and> fst (Project_Create (Client dt) (newProject n v)
                 (snd (Project_Lookup (Client dt) n v (svc w)))) = Inr created
        \<and> fst (Project_Lookup (Client dt) n v
                 (snd (Project_Create (Client dt) (newProject n v)
                         (snd (Project_Lookup (Client dt) n v (svc w)))))) = Inr found \<longrightarrow>
      (\<exists>p w1. trace w1 = trace w
              @ [Call_UploadBOM n v pn pv bom fl, Client_Lookup n v,
                 Client_Create (newProject n v), Client_Lookup n v]
          \<and> UploadBOM dt rnd cx n v pn pv bom fl w
              = submitAndPoll dt rnd cx (uploadRequest p v pn pv bom fl) w1))"
proof -
  let ?w0 = "record_event (Call_UploadBOM n v pn pv bom fl) w"
  let ?c = "Client dt"
  have w0: "svc ?w0 = svc w" "trace ?w0 = trace w @ [Call_UploadBOM n v pn pv bom fl]"
    by (simp_all add: record_event_world)
  show ?thesis
  proof (intro conjI allI impI)
    fix p
    assume "fst (Project_Lookup ?c n v (svc w)) = Inr p"
    then have "fst (Project_Lookup ?c n v (svc ?w0)) = Inr p"
      by (simp add: w0)
    from ensureProject_found [OF this]
    have "fst (ensureProject ?c n v ?w0) = Inr p"
      and t: "trace (snd (ensureProject ?c n v ?w0))
                = trace w @ [Call_UploadBOM n v pn pv bom fl, Client_Lookup n v]"
      by (simp_all add: w0)
    from UploadBOM_submits [OF this(1)] t
    show "\<exists>w1. trace w1 = trace w @ [Call_UploadBOM n v pn pv bom fl, Client_Lookup n v]
          \<and> UploadBOM dt rnd cx n v pn pv bom fl w
              = submitAndPoll dt rnd cx (uploadRequest p v pn pv bom fl) w1"
      by blast
  next
    fix e e'
    assume a: "fst (Project_Lookup ?c n v (svc w)) = Inl e
      \<and> fst (Project_Create ?c (newProject n v) (snd (Project_Lookup ?c n v (svc w)))) = Inl e'"
    then have l: "fst (Project_Lookup ?c n v (svc ?w0)) = Inl e"
      and c: "fst (Project_Create ?c (newProject n v) (snd (Project_Lookup ?c n v (svc ?w0)))) = Inl e'"
      by (simp_all add: w0)
    from ensureProject_created(1) [OF l c] UploadBOM_not_ensured [of dt n v pn pv bom fl w e' rnd cx]
    show "\<exists>w'. UploadBOM dt rnd cx n v pn pv bom fl w = Some (Returns e', w')
          \<and> trace w' = trace w
              @ [Call_UploadBOM n v pn pv bom fl, Client_Lookup n v,
                 Client_Create (newProject n v)]"
      by (simp add: w0)
  next
    fix e created e'
    assume a: "fst (Project_Lookup ?c n v (svc w)) = Inl e
        \<and> fst (Project_Create ?c (newProject n v) (snd (Project_Lookup ?c n v (svc w)))) = Inr created
        \<and> fst (Project_Lookup ?c n v
                 (snd (Project_Create ?c (newProject n v)
                         (snd (Project_Lookup ?c n v (svc w)))))) = Inl e'"
    then have l: "fst (Project_Lookup ?c n v (svc ?w0)) = Inl e"
      and c: "fst (Project_Create ?c (newProject n v) (snd (Project_Lookup ?c n v (svc ?w0)))) = Inr created"
      by (simp_all add: w0)
    from ensureProject_created(2) [OF l c] a
    have "fst (ensureProject ?c n v ?w0) = Inl e'"
      and "trace (snd (ensureProject ?c n v ?w0)) = trace w
              @ [Call_UploadBOM n v pn pv bom fl, Client_Lookup n v,
                 Client_Create (newProject n v), Client_Lookup n v]"
      by (simp_all add: w0)
    with UploadBOM_not_ensured [of dt n v pn pv bom fl w e' rnd cx]
    show "\<exists>w'. UploadBOM dt rnd cx n v pn pv bom fl w = Some (Returns e', w')
          \<and> trace w' = trace w
              @ [Call_UploadBOM n v pn pv bom fl, Client_Lookup n v,
                 Client_Create (newProject n v), Client_Lookup n v]"
      by simp
  next
    fix e created found
    assume a: "fst (Project_Lookup ?c n v (svc w)) = Inl e
        \<and> fst (Project_Create ?c (newProject n v) (snd (Project_Lookup ?c n v (svc w)))) = Inr created
        \<and> fst (Project_Lookup ?c n v
                 (snd (Project_Create ?c (newProject n v)
                         (snd (Project_Lookup ?c n v (svc w)))))) = Inr found"
    then have l: "fst (Project_Lookup ?c n v (svc ?w0)) = Inl e"
      and c: "fst (Project_Create ?c (newProject n v) (snd (Project_Lookup ?c n v (svc ?w0)))) = Inr created"
      by (simp_all add: w0)
    from ensureProject_created(2) [OF l c] a
    obtain p where "fst (ensureProject ?c n v ?w0) = Inr p"
      and t: "trace (snd (ensureProject ?c n v ?w0)) = trace w
              @ [Call_UploadBOM n v pn pv bom fl, Client_Lookup n v,
                 Client_Create (newProject n v), Client_Lookup n v]"
      by (simp add: w0)
    from UploadBOM_submits [OF this(1)] t
    show "\<exists>p w1. trace w1 = trace w
              @ [Call_UploadBOM n v pn pv bom fl, Client_Lookup n v,
                 Client_Create (newProject n v), Client_Lookup n v]
          \<and> UploadBOM dt rnd cx n v pn pv bom fl w
              = submitAndPoll dt rnd cx (uploadRequest p v pn pv bom fl) w1"
      by blast
  qed
qed

theorem UploadBOM_ensures_project_witness:
  "fst (Project_Lookup (Client fake_dt) ''myproj'' ''v1'' (svc (world0 tracked))) = Inr myproj
   \<and> (\<exists>w1. trace w1 = [Call_UploadBOM ''myproj'' ''v1'' [] [] [1, 2, 3] True,
                        Client_Lookup ''myproj'' ''v1'']
         \<and> UploadBOM fake_dt first_ready background ''myproj'' ''v1'' [] [] [1, 2, 3] True
              (world0 tracked)
             = submitAndPoll fake_dt first_ready background
                 (uploadRequest myproj ''v1'' [] [] [1, 2, 3] True) w1)
   \<and> fst (Project_Lookup (Client fake_dt) ''myproj'' ''v1'' (svc (world0 racing)))
       = Inl (ErrorString ''project not found'')
   \<and> fst (Project_Create (Client fake_dt) (newProject ''myproj'' ''v1'')
            (snd (Project_Lookup (Client fake_dt) ''myproj'' ''v1'' (svc (world0 racing)))))
       = Inl (ErrorString ''project already exists'')
   \<and> (\<exists>w'. UploadBOM fake_dt first_ready background ''myproj'' ''v1'' [] [] [1, 2, 3] True
               (world0 racing) = Some (Returns (ErrorString ''project already exists''), w')
         \<and> trace w' = [Call_UploadBOM ''myproj'' ''v1'' [] [] [1, 2, 3] True,
                        Client_Lookup ''myproj'' ''v1'',
                        Client_Create (newProject ''myproj'' ''v1'')])
   \<and> fst (Project_Create (Client lost_dt) (newProject ''myproj'' ''v1'')
            (snd (Project_Lookup (Client lost_dt) ''myproj'' ''v1'' (svc (world0 empty_service)))))
       = Inr ((newProject ''myproj'' ''v1'')\<lparr>UUID := ''mine''\<rparr>)
   \<and> (\<exists>w'. UploadBOM lost_dt first_ready background ''myproj'' ''v1'' [] [] [1, 2, 3] True
               (world0 empty_service) = Some (Returns (ErrorString ''project not found''), w')
         \<and> trace w' = [Call_UploadBOM ''myproj'' ''v1'' [] [] [1, 2, 3] True,
                        Client_Lookup ''myproj'' ''v1'',
                        Client_Create (newProject ''myproj'' ''v1''),
                        Client_Lookup ''myproj'' ''v1''])
   \<and> fst (Project_Lookup (Client fake_dt) ''myproj'' ''v1''
            (snd (Project_Create (Client fake_dt) (newProject ''myproj'' ''v1'')
                    (snd (Project_Lookup (Client fake_dt) ''myproj'' ''v1''
                            (svc (world0 empty_service)))))))
       = Inr ((newProject ''myproj'' ''v1'')\<lparr>UUID := ''mine''\<rparr>)
   \<and> (\<exists>p w1. trace w1 = [Call_UploadBOM ''myproj'' ''v1'' [] [] [1, 2, 3] True,
                          Client_Lookup ''myproj'' ''v1'',
                          Client_Create (newProject ''myproj'' ''v1''),
                          Client_Lookup ''myproj'' ''v1'']
         \<and> UploadBOM fake_dt first_ready background ''myproj'' ''v1'' [] [] [1, 2, 3] True
              (world0 empty_service)
             = submitAndPoll fake_dt first_ready background
                 (uploadRequest p ''v1'' [] [] [1, 2, 3] True) w1)"
proof -
  let ?mine = "(newProject ''myproj'' ''v1'')\<lparr>UUID := ''mine''\<rparr>"
  note inst = UploadBOM_ensures_project [where rnd = first_ready and cx = background
      and n = "''myproj''" and v = "''v1''" and pn = "[]" and pv = "[]" and bom = "[1, 2, 3]"
      and fl = True]
  have init: "trace (world0 s) = []" "svc (world0 s) = s" for s :: fake
    by (simp_all add: world0_def)
  \<comment> \<open>the project is found\<close>
  have found: "fst (Project_Lookup (Client fake_dt) ''myproj'' ''v1'' (svc (world0 tracked))) = Inr myproj"
    by (simp add: init fixture_fields fake_Lookup_def tracked_def empty_service_def myproj_def)
  from inst [where dt = fake_dt and w = "world0 tracked", THEN conjunct1, rule_format, of myproj]
    found
  have c1: "\<exists>w1. trace w1 = [Call_UploadBOM ''myproj'' ''v1'' [] [] [1, 2, 3] True,
                        Client_Lookup ''myproj'' ''v1'']
         \<and> UploadBOM fake_dt first_ready background ''myproj'' ''v1'' [] [] [1, 2, 3] True
              (world0 tracked)
             = submitAndPoll fake_dt first_ready background
                 (uploadRequest myproj ''v1'' [] [] [1, 2, 3] True) w1"
    by (simp add: init)
  \<comment> \<open>the create fails\<close>
  have miss2: "fst (Project_Lookup (Client fake_dt) ''myproj'' ''v1'' (svc (world0 racing)))
       = Inl (ErrorString ''project not found'')"
    and fail2: "fst (Project_Create (Client fake_dt) (newProject ''myproj'' ''v1'')
            (snd (Project_Lookup (Client fake_dt) ''myproj'' ''v1'' (svc (world0 racing)))))
       = Inl (ErrorString ''project already exists'')"
    by (simp_all add: init fixture_fields fake_Lookup_def fake_Create_def racing_def
        empty_service_def)
  from inst [where dt = fake_dt and w = "world0 racing", THEN conjunct2, THEN conjunct1,
      rule_format, of _ "ErrorString ''project already exists''"] miss2 fail2
  have c2: "\<exists>w'. UploadBOM fake_dt first_ready background ''myproj'' ''v1'' [] [] [1, 2, 3] True
               (world0 racing) = Some (Returns (ErrorString ''project already exists''), w')
         \<and> trace w' = [Call_UploadBOM ''myproj'' ''v1'' [] [] [1, 2, 3] True,
                        Client_Lookup ''myproj'' ''v1'',
                        Client_Create (newProject ''myproj'' ''v1'')]"
    by (simp add: init)
  \<comment> \<open>the second lookup fails\<close>
  have lost: "Project_Lookup (Client lost_dt) n v s = (Inl (ErrorString ''project not found''), s)"
    "Project_Create (Client lost_dt) = fake_Create" for n v s
    by (simp_all add: lost_dt_def lost_Client_def fake_Client_def)
  have made3: "fst (Project_Create (Client lost_dt) (newProject ''myproj'' ''v1'')
            (snd (Project_Lookup (Client lost_dt) ''myproj'' ''v1'' (svc (world0 empty_service)))))
       = Inr ?mine"
    by (simp add: lost init fake_Create_def empty_service_def)
  from inst [where dt = lost_dt and w = "world0 empty_service", THEN conjunct2, THEN conjunct2,
      THEN conjunct1, rule_format, of _ ?mine "ErrorString ''project not found''"] made3
  have c3: "\<exists>w'. UploadBOM lost_dt first_ready background ''myproj'' ''v1'' [] [] [1, 2, 3] True
               (world0 empty_service) = Some (Returns (ErrorString ''project not found''), w')
         \<and> trace w' = [Call_UploadBOM ''myproj'' ''v1'' [] [] [1, 2, 3] True,
                        Client_Lookup ''myproj'' ''v1'',
                        Client_Create (newProject ''myproj'' ''v1''),
                        Client_Lookup ''myproj'' ''v1'']"
    by (simp add: lost init)
  \<comment> \<open>the project is created and found\<close>
  have miss4: "fst (Project_Lookup (Client fake_dt) ''myproj'' ''v1'' (svc (world0 empty_service)))
       = Inl (ErrorString ''project not found'')"
    and made4: "fst (Project_Create (Client fake_dt) (newProject ''myproj'' ''v1'')
            (snd (Project_Lookup (Client fake_dt) ''myproj'' ''v1'' (svc (world0 empty_service)))))
       = Inr ?mine"
    and found4: "fst (Project_Lookup (Client fake_dt) ''myproj'' ''v1''
            (snd (Project_Create (Client fake_dt) (newProject ''myproj'' ''v1'')
                    (snd (Project_Lookup (Client fake_dt) ''myproj'' ''v1''
                            (svc (world0 empty_service)))))))
       = Inr ?mine"
    by (simp_all add: init fixture_fields fake_Lookup_def fake_Create_def empty_service_def
        newProject_def)
  from inst [where dt = fake_dt and w = "world0 empty_service", THEN conjunct2, THEN conjunct2,
      THEN conjunct2, rule_format, of _ ?mine ?mine] miss4 made4 found4
  have c4: "\<exists>p w1. trace w1 = [Call_UploadBOM ''myproj'' ''v1'' [] [] [1, 2, 3] True,
                          Client_Lookup ''myproj'' ''v1'',
                          Client_Create (newProject ''myproj'' ''v1''),
                          Client_Lookup ''myproj'' ''v1'']
         \<and> UploadBOM fake_dt first_ready background ''myproj'' ''v1'' [] [] [1, 2, 3] True
              (world0 empty_service)
             = submitAndPoll fake_dt first_ready background
                 (uploadRequest p ''v1'' [] [] [1, 2, 3] True) w1"
    by (simp add: init)
  show ?thesis
    using found c1 miss2 fail2 c2 made3 c3 found4 c4
    by blast
qed

text \<open>
  Claim C3 as it is stated fails: on a service where another caller creates the project
  between the lookup and the create, the create fails, \<open>UploadBOM\<close> returns its error
  and nothing is submitted, although a lookup would now find the project.
\<close>

theorem UploadBOM_create_race_counterexample:
  "UploadBOM fake_dt first_ready background ''myproj'' ''v1'' [] [] [1, 2, 3] True
     (world0 (empty_service\<lparr>raced := True\<rparr>))
   = Some (Returns (ErrorString ''project already exists''),
       \<lparr>svc = empty_service\<lparr>projects := [(newProject ''myproj'' ''v1'')\<lparr>UUID := ''other''\<rparr>],
                             raced := True\<rparr>,
        trace = [Call_UploadBOM ''myproj'' ''v1'' [] [] [1, 2, 3] True,
                 Client_Lookup ''myproj'' ''v1'',
                 Client_Create (newProject ''myproj'' ''v1'')]\<rparr>)
   \<and> fst (Lookup fake_Client ''myproj'' ''v1''
       \<lparr>svc = empty_service\<lparr>projects := [(newProject ''myproj'' ''v1'')\<lparr>UUID := ''other''\<rparr>],
                             raced := True\<rparr>,
        trace = [Call_UploadBOM ''myproj'' ''v1'' [] [] [1, 2, 3] True,
                 Client_Lookup ''myproj'' ''v1'',
                 Client_Create (newProject ''myproj'' ''v1'')]\<rparr>)
       = Inr ((newProject ''myproj'' ''v1'')\<lparr>UUID := ''other''\<rparr>)"
  by (simp add: UploadBOM_def ensureProject_alt fixture_fields Lookup_def Create_def
      record_event_def world0_def fake_Lookup_def fake_Create_def empty_service_def
      newProject_def)

section \<open>Properties of the Run Coordinator\<close>

text \<open>
  Claim C8. When parsing the input fails with the "not an SBOM report" condition, \<open>Run\<close>
  returns \<open>nil\<close>; when it fails with any other error, \<open>Run\<close> returns that error. In
  both cases the world is left as it was: no further step is performed.
\<close>

theorem Run_parse_failure:
  assumes "sbomreport_New x input = Inl err"
  shows "Run x rnd u cx input w
           = Some (if IsErrNotSBOMReport x err then ReturnsNil else Returns err, w)"
  using assms by (simp add: Run_def resolve_def)

theorem Run_parse_failure_witness:
  "sbomreport_New (fixed_packages (Inl (ErrorString ''not sbom report''))) [] = Inl (ErrorString ''not sbom report'')
   \<and> Run (fixed_packages (Inl (ErrorString ''not sbom report''))) first_ready (fake_uploader [''a''])
        background [] (world0 empty_service) = Some (ReturnsNil, world0 empty_service)
   \<and> sbomreport_New (fixed_packages (Inl (ErrorString ''unexpected end of JSON input''))) []
        = Inl (ErrorString ''unexpected end of JSON input'')
   \<and> Run (fixed_packages (Inl (ErrorString ''unexpected end of JSON input''))) first_ready
        (fake_uploader [''a'']) background [] (world0 empty_service)
       = Some (Returns (ErrorString ''unexpected end of JSON input''), world0 empty_service)"
proof -
  have a: "sbomreport_New (fixed_packages (Inl e)) [] = Inl e" for e
    by (simp add: fixed_packages_def)
  have b: "IsErrNotSBOMReport (fixed_packages p) e \<longleftrightarrow> e = ErrorString ''not sbom report''" for p e
    by (simp add: fixed_packages_def)
  show ?thesis
    using Run_parse_failure [OF a [of "ErrorString ''not sbom report''"], of first_ready
        "fake_uploader [''a'']" background "world0 empty_service"]
      Run_parse_failure [OF a [of "ErrorString ''unexpected end of JSON input''"], of first_ready
        "fake_uploader [''a'']" background "world0 empty_service"]
    by (simp add: a b)
qed

text \<open>
  Claim C7. When the input parses and the verb of the report is not "update", \<open>Run\<close>
  returns the error "only support verb is update" and leaves the world, and so the trace,
  as it was: \<open>IsLatest\<close>, \<open>UploadBOM\<close> and \<open>AddTagsToProject\<close>, each of which records
  its call, are not invoked.
\<close>

theorem Run_unsupported_verb:
  assumes "sbomreport_New x input = Inr sb" and "\<not> ISVerbUpdate x sb"
  shows "Run x rnd u cx input w
           = Some (Returns (ErrorString ''only support verb is update''), w)"
  using assms by (simp add: Run_def resolve_def)

theorem Run_unsupported_verb_witness:
  "sbomreport_New (fixed_packages (Inr (''create'', ''1700000000''))) [] = Inr (''create'', ''1700000000'')
   \<and> \<not> ISVerbUpdate (fixed_packages (Inr (''create'', ''1700000000''))) (''create'', ''1700000000'')
   \<and> Run (fixed_packages (Inr (''create'', ''1700000000''))) first_ready (fake_uploader [''a''])
        background [] (world0 empty_service)
       = Some (Returns (ErrorString ''only support verb is update''), world0 empty_service)"
proof -
  have a: "sbomreport_New (fixed_packages (Inr (''create'', ''1700000000''))) [] = Inr (''create'', ''1700000000'')"
    by (simp add: fixed_packages_def)
  have b: "\<not> ISVerbUpdate (fixed_packages (Inr (''create'', ''1700000000''))) (''create'', ''1700000000'')"
    by (simp add: fixed_packages_def)
  show ?thesis
    using a b Run_unsupported_verb [OF a b, of first_ready "fake_uploader [''a'']" background
        "world0 empty_service"]
    by simp
qed

text \<open>
  Claim C4. In a run that resolves the project identity and returns: when the update
  timestamp of the report does not parse as a 64-bit decimal integer, the first method
  \<open>Run\<close> calls is \<open>UploadBOM\<close>, with the latest flag true, and \<open>IsLatest\<close> is not
  called; when it parses, \<open>Run\<close> calls \<open>IsLatest\<close> once, for the resolved name and
  version and the parsed timestamp, and passes its result to \<open>UploadBOM\<close> as the latest
  flag.
\<close>

theorem Run_latest_flag:
  assumes "resolve x (config u) input = Inr rs"
    and "Run x rnd u cx input w = Some (r, w')"
  shows "\<exists>tagcalls.
           method_calls (trace w') = method_calls (trace w)
             @ (case ParseInt (UpdateTimestamp x (sbom rs)) of
                  None \<Rightarrow>
                    [Call_UploadBOM (projectName rs) (projectVersion rs) (parentName rs)
                       (parentVersion rs) (BOM x (sbom rs)) True]
                | Some ts \<Rightarrow>
                    [Call_IsLatest (projectName rs) (projectVersion rs) ts,
                     Call_UploadBOM (projectName rs) (projectVersion rs) (parentName rs)
                       (parentVersion rs) (BOM x (sbom rs))
                       (fst (IsLatest (dtrack u) (projectName rs) (projectVersion rs) ts w))])
             @ tagcalls
           \<and> (tagcalls = []
               \<or> tagcalls = [Call_AddTagsToProject (projectName rs) (projectVersion rs)
                                (projectTags rs)])"
proof -
  let ?fl = "fst (arbitrate x (dtrack u) rs w)"
  let ?w1 = "snd (arbitrate x (dtrack u) rs w)"
  from Run_resolved [OF assms] obtain ur w2 where
    up: "UploadBOM (dtrack u) rnd cx (projectName rs) (projectVersion rs)
           (parentName rs) (parentVersion rs) (BOM x (sbom rs)) ?fl ?w1 = Some (ur, w2)"
    and fin: "(r, w') = (if ur = ReturnsNil \<and> projectTags rs \<noteq> []
                         then AddTagsToProject (dtrack u) (projectName rs) (projectVersion rs)
                                (projectTags rs) w2
                         else (ur, w2))"
    by blast
  have m1: "method_calls (trace ?w1) = method_calls (trace w)
      @ (case ParseInt (UpdateTimestamp x (sbom rs)) of
           None \<Rightarrow> []
         | Some ts \<Rightarrow> [Call_IsLatest (projectName rs) (projectVersion rs) ts])"
    by (simp add: arbitrate_world(2) method_calls_def split: option.splits)
  have m2: "method_calls (trace w2) = method_calls (trace ?w1)
      @ [Call_UploadBOM (projectName rs) (projectVersion rs) (parentName rs)
           (parentVersion rs) (BOM x (sbom rs)) ?fl]"
    by (rule UploadBOM_calls(1) [OF up])
  define tagcalls where "tagcalls =
    (if ur = ReturnsNil \<and> projectTags rs \<noteq> []
     then [Call_AddTagsToProject (projectName rs) (projectVersion rs) (projectTags rs)]
     else [])"
  have "w' = (if ur = ReturnsNil \<and> projectTags rs \<noteq> []
              then snd (AddTagsToProject (dtrack u) (projectName rs) (projectVersion rs)
                          (projectTags rs) w2)
              else w2)"
    using fin by (simp split: if_splits add: snd_def prod_eq_iff)
  then have m3: "method_calls (trace w') = method_calls (trace w2) @ tagcalls"
    by (simp add: tagcalls_def AddTagsToProject_trace method_calls_def split: sum.splits)
  have "method_calls (trace w') = method_calls (trace w)
             @ (case ParseInt (UpdateTimestamp x (sbom rs)) of
                  None \<Rightarrow>
                    [Call_UploadBOM (projectName rs) (projectVersion rs) (parentName rs)
                       (parentVersion rs) (BOM x (sbom rs)) True]
                | Some ts \<Rightarrow>
                    [Call_IsLatest (projectName rs) (projectVersion rs) ts,
                     Call_UploadBOM (projectName rs) (projectVersion rs) (parentName rs)
                       (parentVersion rs) (BOM x (sbom rs))
                       (fst (IsLatest (dtrack u) (projectName rs) (projectVersion rs) ts w))])
             @ tagcalls"
    by (simp add: m3 m2 m1 arbitrate_world(1) split: option.splits)
  moreover have "tagcalls = []
      \<or> tagcalls = [Call_AddTagsToProject (projectName rs) (projectVersion rs) (projectTags rs)]"
    by (simp add: tagcalls_def)
  ultimately show ?thesis
    by blast
qed

theorem Run_latest_flag_witness:
  "resolve (fixed_packages (Inr (''update'', ''1700000000''))) (config (fake_uploader [])) []
     = Inr \<lparr>sbom = (''update'', ''1700000000''), projectName = ''myproj'', projectVersion = ''v1'',
            projectTags = [], parentName = [], parentVersion = []\<rparr>
   \<and> ParseInt ''1700000000'' = Some 1700000000
   \<and> \<not> fst (IsLatest fake_dt ''myproj'' ''v1'' 1700000000 (world0 tracked))
   \<and> (\<exists>r w'. Run (fixed_packages (Inr (''update'', ''1700000000''))) first_ready
                 (fake_uploader []) background [] (world0 tracked) = Some (r, w')
         \<and> method_calls (trace w')
             = [Call_IsLatest ''myproj'' ''v1'' 1700000000,
                Call_UploadBOM ''myproj'' ''v1'' [] [] [1, 2, 3] False])
   \<and> resolve (fixed_packages (Inr (''update'', ''x''))) (config (fake_uploader [''a'', ''a''])) []
     = Inr \<lparr>sbom = (''update'', ''x''), projectName = ''myproj'', projectVersion = ''v1'',
            projectTags = [''a'', ''a''], parentName = [], parentVersion = []\<rparr>
   \<and> ParseInt ''x'' = None
   \<and> (\<exists>r w'. Run (fixed_packages (Inr (''update'', ''x''))) first_ready
                 (fake_uploader [''a'', ''a'']) background [] (world0 tracked) = Some (r, w')
         \<and> method_calls (trace w')
             = [Call_UploadBOM ''myproj'' ''v1'' [] [] [1, 2, 3] True,
                Call_AddTagsToProject ''myproj'' ''v1'' [''a'', ''a'']])"
proof -
  let ?A = "fixed_packages (Inr (''update'', ''1700000000''))"
  let ?B = "fixed_packages (Inr (''update'', ''x''))"
  have resA: "resolve ?A (config (fake_uploader [])) []
     = Inr \<lparr>sbom = (''update'', ''1700000000''), projectName = ''myproj'', projectVersion = ''v1'',
            projectTags = [], parentName = [], parentVersion = []\<rparr>"
    and resB: "resolve ?B (config (fake_uploader [''a'', ''a''])) []
     = Inr \<lparr>sbom = (''update'', ''x''), projectName = ''myproj'', projectVersion = ''v1'',
            projectTags = [''a'', ''a''], parentName = [], parentVersion = []\<rparr>"
    by (simp_all add: fixture_fields resolve_fixed)
  have tie: "\<not> fst (IsLatest fake_dt ''myproj'' ''v1'' 1700000000 (world0 tracked))"
    by (simp add: IsLatest_def Lookup_def record_event_def world0_def fixture_fields
        fake_Lookup_def tracked_def empty_service_def myproj_def)
  have empty: "method_calls (trace (world0 tracked)) = []"
    by (simp add: method_calls_def world0_def)
  from Run_latest_flag [OF resA Run_example_parsable]
  have A: "method_calls (trace
       \<lparr>svc = tracked\<lparr>uploads := [uploadRequest myproj ''v1'' [] [] [1, 2, 3] False]\<rparr>,
      trace = [Call_IsLatest ''myproj'' ''v1'' 1700000000, Client_Lookup ''myproj'' ''v1'',
               Call_UploadBOM ''myproj'' ''v1'' [] [] [1, 2, 3] False,
               Client_Lookup ''myproj'' ''v1'',
               Client_Upload (uploadRequest myproj ''v1'' [] [] [1, 2, 3] False),
               Client_IsBeingProcessed ''token'']\<rparr>)
     = [Call_IsLatest ''myproj'' ''v1'' 1700000000,
                Call_UploadBOM ''myproj'' ''v1'' [] [] [1, 2, 3] False]"
    by (simp add: method_calls_def)
  from Run_latest_flag [OF resB Run_example_unparsable]
  have B: "method_calls (trace
     \<lparr>svc = tracked\<lparr>projects := [myproj\<lparr>Tags := [Tag ''old'', Tag ''a'', Tag ''a'']\<rparr>],
                     uploads := [uploadRequest myproj ''v1'' [] [] [1, 2, 3] True]\<rparr>,
      trace = [Call_UploadBOM ''myproj'' ''v1'' [] [] [1, 2, 3] True,
               Client_Lookup ''myproj'' ''v1'',
               Client_Upload (uploadRequest myproj ''v1'' [] [] [1, 2, 3] True),
               Client_IsBeingProcessed ''token'',
               Call_AddTagsToProject ''myproj'' ''v1'' [''a'', ''a''],
               Client_Lookup ''myproj'' ''v1'',
               Client_Update (myproj\<lparr>Tags := [Tag ''old'', Tag ''a'', Tag ''a'']\<rparr>)]\<rparr>)
     = [Call_UploadBOM ''myproj'' ''v1'' [] [] [1, 2, 3] True,
                Call_AddTagsToProject ''myproj'' ''v1'' [''a'', ''a'']]"
    by (simp add: method_calls_def)
  show ?thesis
    using resA resB tie A B Run_example_parsable Run_example_unparsable
    by (simp add: ParseInt_examples)
qed

text \<open>
  Claim C9. In a run that resolves the project identity and returns: when the resolved tag
  list is empty, the run ends with \<open>UploadBOM\<close> and neither calls \<open>AddTagsToProject\<close>
  nor sends an update request; when the list is not empty and \<open>UploadBOM\<close> returned
  \<open>nil\<close>, \<open>Run\<close> returns what the one call of \<open>AddTagsToProject\<close> with the resolved
  tags returns, and the project sent in the update request is the project found with the
  tags appended, in their order and with duplicates kept, to the tags it had.
\<close>

theorem Run_tagging:
  assumes "resolve x (config u) input = Inr rs"
    and "Run x rnd u cx input w = Some (r, w')"
  shows "(projectTags rs = [] \<longrightarrow>
            tagging (trace w') = tagging (trace w)
          \<and> UploadBOM (dtrack u) rnd cx (projectName rs) (projectVersion rs) (parentName rs)
              (parentVersion rs) (BOM x (sbom rs)) (fst (arbitrate x (dtrack u) rs w))
              (snd (arbitrate x (dtrack u) rs w)) = Some (r, w'))
       \<and> (\<forall>w2. projectTags rs \<noteq> []
              \<and> UploadBOM (dtrack u) rnd cx (projectName rs) (projectVersion rs) (parentName rs)
                  (parentVersion rs) (BOM x (sbom rs)) (fst (arbitrate x (dtrack u) rs w))
                  (snd (arbitrate x (dtrack u) rs w)) = Some (ReturnsNil, w2) \<longrightarrow>
            (r, w') = AddTagsToProject (dtrack u) (projectName rs) (projectVersion rs)
                        (projectTags rs) w2
          \<and> tagging (trace w') = tagging (trace w)
              @ Call_AddTagsToProject (projectName rs) (projectVersion rs) (projectTags rs)
              # (case fst (Project_Lookup (Client (dtrack u)) (projectName rs)
                             (projectVersion rs) (svc w2)) of
                   Inl e \<Rightarrow> []
                 | Inr p \<Rightarrow> [Client_Update (p\<lparr>Tags := Tags p @ map Tag (projectTags rs)\<rparr>)]))"
proof -
  let ?fl = "fst (arbitrate x (dtrack u) rs w)"
  let ?w1 = "snd (arbitrate x (dtrack u) rs w)"
  from Run_resolved [OF assms] obtain ur w2 where
    up: "UploadBOM (dtrack u) rnd cx (projectName rs) (projectVersion rs)
           (parentName rs) (parentVersion rs) (BOM x (sbom rs)) ?fl ?w1 = Some (ur, w2)"
    and fin: "(r, w') = (if ur = ReturnsNil \<and> projectTags rs \<noteq> []
                         then AddTagsToProject (dtrack u) (projectName rs) (projectVersion rs)
                                (projectTags rs) w2
                         else (ur, w2))"
    by blast
  have t1: "tagging (trace ?w1) = tagging (trace w)"
    by (simp add: arbitrate_world(2) tagging_def split: option.splits)
  have t2: "tagging (trace w2) = tagging (trace ?w1)"
    by (rule UploadBOM_calls(2) [OF up])
  show ?thesis
  proof (intro conjI impI allI)
    assume "projectTags rs = []"
    with fin have "r = ur" "w' = w2"
      by simp_all
    then show "tagging (trace w') = tagging (trace w)"
      and "UploadBOM (dtrack u) rnd cx (projectName rs) (projectVersion rs) (parentName rs)
              (parentVersion rs) (BOM x (sbom rs)) ?fl ?w1 = Some (r, w')"
      using t1 t2 up by simp_all
  next
    fix w2'
    assume a: "projectTags rs \<noteq> []
      \<and> UploadBOM (dtrack u) rnd cx (projectName rs) (projectVersion rs) (parentName rs)
          (parentVersion rs) (BOM x (sbom rs)) ?fl ?w1 = Some (ReturnsNil, w2')"
    with up have eq: "ur = ReturnsNil" "w2' = w2"
      by simp_all
    with a fin show r: "(r, w') = AddTagsToProject (dtrack u) (projectName rs) (projectVersion rs)
                        (projectTags rs) w2'"
      by simp
    then have "w' = snd (AddTagsToProject (dtrack u) (projectName rs) (projectVersion rs)
                        (projectTags rs) w2)"
      using eq by (simp add: prod_eq_iff)
    then show "tagging (trace w') = tagging (trace w)
              @ Call_AddTagsToProject (projectName rs) (projectVersion rs) (projectTags rs)
              # (case fst (Project_Lookup (Client (dtrack u)) (projectName rs)
                             (projectVersion rs) (svc w2')) of
                   Inl e \<Rightarrow> []
                 | Inr p \<Rightarrow> [Client_Update (p\<lparr>Tags := Tags p @ map Tag (projectTags rs)\<rparr>)])"
      using t1 t2 eq by (simp add: AddTagsToProject_trace tagging_def split: sum.splits)
  qed
qed

theorem Run_tagging_witness:
  "resolve (fixed_packages (Inr (''update'', ''1700000000''))) (config (fake_uploader [])) []
     = Inr \<lparr>sbom = (''update'', ''1700000000''), projectName = ''myproj'', projectVersion = ''v1'',
            projectTags = [], parentName = [], parentVersion = []\<rparr>
   \<and> (\<exists>r w'. Run (fixed_packages (Inr (''update'', ''1700000000''))) first_ready
                 (fake_uploader []) background [] (world0 tracked) = Some (r, w')
         \<and> tagging (trace w') = [])
   \<and> resolve (fixed_packages (Inr (''update'', ''x''))) (config (fake_uploader [''a'', ''a''])) []
     = Inr \<lparr>sbom = (''update'', ''x''), projectName = ''myproj'', projectVersion = ''v1'',
            projectTags = [''a'', ''a''], parentName = [], parentVersion = []\<rparr>
   \<and> (\<exists>w2. UploadBOM fake_dt first_ready background ''myproj'' ''v1'' [] [] [1, 2, 3] True
               (world0 tracked) = Some (ReturnsNil, w2)
         \<and> fst (Project_Lookup fake_Client ''myproj'' ''v1'' (svc w2)) = Inr myproj)
   \<and> (\<exists>r w'. Run (fixed_packages (Inr (''update'', ''x''))) first_ready
                 (fake_uploader [''a'', ''a'']) background [] (world0 tracked) = Some (r, w')
         \<and> tagging (trace w')
             = [Call_AddTagsToProject ''myproj'' ''v1'' [''a'', ''a''],
                Client_Update (myproj\<lparr>Tags := [Tag ''old'', Tag ''a'', Tag ''a'']\<rparr>)])"
proof -
  let ?A = "fixed_packages (Inr (''update'', ''1700000000''))"
  let ?B = "fixed_packages (Inr (''update'', ''x''))"
  let ?rsB = "\<lparr>sbom = (''update'', ''x''), projectName = ''myproj'', projectVersion = ''v1'',
            projectTags = [''a'', ''a''], parentName = [], parentVersion = []\<rparr>"
  have resA: "resolve ?A (config (fake_uploader [])) []
     = Inr \<lparr>sbom = (''update'', ''1700000000''), projectName = ''myproj'', projectVersion = ''v1'',
            projectTags = [], parentName = [], parentVersion = []\<rparr>"
    and resB: "resolve ?B (config (fake_uploader [''a'', ''a''])) [] = Inr ?rsB"
    by (simp_all add: fixture_fields resolve_fixed)
  have up: "UploadBOM fake_dt first_ready background ''myproj'' ''v1'' [] [] [1, 2, 3] True
               (world0 tracked) =
     Some (ReturnsNil,
     \<lparr>svc = tracked\<lparr>uploads := uploads tracked @ [uploadRequest myproj ''v1'' [] [] [1, 2, 3] True]\<rparr>,
      trace = [Call_UploadBOM ''myproj'' ''v1'' [] [] [1, 2, 3] True,
               Client_Lookup ''myproj'' ''v1'',
               Client_Upload (uploadRequest myproj ''v1'' [] [] [1, 2, 3] True),
               Client_IsBeingProcessed ''token'']\<rparr>)"
    by (rule UploadBOM_example) (simp_all add: tracked_def empty_service_def)
  have found: "fst (Project_Lookup fake_Client ''myproj'' ''v1''
      (tracked\<lparr>uploads := uploads tracked @ [uploadRequest myproj ''v1'' [] [] [1, 2, 3] True]\<rparr>))
     = Inr myproj"
    by (simp add: fixture_fields fake_Lookup_def tracked_def empty_service_def myproj_def)
  have empty: "tagging (trace (world0 tracked)) = []"
    by (simp add: tagging_def world0_def)
  from Run_tagging [OF resA Run_example_parsable]
  have A: "tagging (trace
       \<lparr>svc = tracked\<lparr>uploads := [uploadRequest myproj ''v1'' [] [] [1, 2, 3] False]\<rparr>,
      trace = [Call_IsLatest ''myproj'' ''v1'' 1700000000, Client_Lookup ''myproj'' ''v1'',
               Call_UploadBOM ''myproj'' ''v1'' [] [] [1, 2, 3] False,
               Client_Lookup ''myproj'' ''v1'',
               Client_Upload (uploadRequest myproj ''v1'' [] [] [1, 2, 3] False),
               Client_IsBeingProcessed ''token'']\<rparr>) = []"
    by (simp add: empty)
  from Run_tagging [OF resB Run_example_unparsable]
  have B: "tagging (trace
     \<lparr>svc = tracked\<lparr>projects := [myproj\<lparr>Tags := [Tag ''old'', Tag ''a'', Tag ''a'']\<rparr>],
                     uploads := [uploadRequest myproj ''v1'' [] [] [1, 2, 3] True]\<rparr>,
      trace = [Call_UploadBOM ''myproj'' ''v1'' [] [] [1, 2, 3] True,
               Client_Lookup ''myproj'' ''v1'',
               Client_Upload (uploadRequest myproj ''v1'' [] [] [1, 2, 3] True),
               Client_IsBeingProcessed ''token'',
               Call_AddTagsToProject ''myproj'' ''v1'' [''a'', ''a''],
               Client_Lookup ''myproj'' ''v1'',
               Client_Update (myproj\<lparr>Tags := [Tag ''old'', Tag ''a'', Tag ''a'']\<rparr>)]\<rparr>)
     = [Call_AddTagsToProject ''myproj'' ''v1'' [''a'', ''a''],
        Client_Update (myproj\<lparr>Tags := [Tag ''old'', Tag ''a'', Tag ''a'']\<rparr>)]"
    using up found
    by (simp add: empty fixture_fields arbitrate_unparsable myproj_def)
  show ?thesis
    using resA resB A B up found Run_example_parsable Run_example_unparsable
    by simp
qed

text \<open>
  Claim C10. When \<open>UploadBOM\<close> returned \<open>nil\<close> and the call of \<open>AddTagsToProject\<close>
  that follows returns an error, \<open>Run\<close> returns that error. The BOM has been submitted
  exactly once in this run (it is not submitted again), and after the upload the run only
  records the tag call, its lookup and, when the lookup succeeded, the update request: it
  sends nothing that would take back the upload or the project.
\<close>

theorem Run_tagging_failure:
  assumes "resolve x (config u) input = Inr rs"
    and "projectTags rs \<noteq> []"
    and "UploadBOM (dtrack u) rnd cx (projectName rs) (projectVersion rs) (parentName rs)
           (parentVersion rs) (BOM x (sbom rs)) (fst (arbitrate x (dtrack u) rs w))
           (snd (arbitrate x (dtrack u) rs w)) = Some (ReturnsNil, w2)"
    and "AddTagsToProject (dtrack u) (projectName rs) (projectVersion rs) (projectTags rs) w2
           = (Returns err, w3)"
  shows "Run x rnd u cx input w = Some (Returns err, w3)
       \<and> (\<exists>p. submissions (trace w3) = submissions (trace w)
                 @ [Client_Upload (uploadRequest p (projectVersion rs) (parentName rs)
                      (parentVersion rs) (BOM x (sbom rs)) (fst (arbitrate x (dtrack u) rs w)))])
       \<and> trace w3 = trace w2
           @ [Call_AddTagsToProject (projectName rs) (projectVersion rs) (projectTags rs),
              Client_Lookup (projectName rs) (projectVersion rs)]
           @ (case fst (Project_Lookup (Client (dtrack u)) (projectName rs)
                          (projectVersion rs) (svc w2)) of
                Inl e \<Rightarrow> []
              | Inr p \<Rightarrow> [Client_Update (p\<lparr>Tags := Tags p @ map Tag (projectTags rs)\<rparr>)])"
proof (intro conjI)
  let ?fl = "fst (arbitrate x (dtrack u) rs w)"
  let ?w1 = "snd (arbitrate x (dtrack u) rs w)"
  show "Run x rnd u cx input w = Some (Returns err, w3)"
    using assms by (simp add: Run_after_resolve)
  have w3: "w3 = snd (AddTagsToProject (dtrack u) (projectName rs) (projectVersion rs)
                        (projectTags rs) w2)"
    using assms(4) by simp
  show t3: "trace w3 = trace w2
           @ [Call_AddTagsToProject (projectName rs) (projectVersion rs) (projectTags rs),
              Client_Lookup (projectName rs) (projectVersion rs)]
           @ (case fst (Project_Lookup (Client (dtrack u)) (projectName rs)
                          (projectVersion rs) (svc w2)) of
                Inl e \<Rightarrow> []
              | Inr p \<Rightarrow> [Client_Update (p\<lparr>Tags := Tags p @ map Tag (projectTags rs)\<rparr>)])"
    unfolding w3 by (rule AddTagsToProject_trace)
  from UploadBOM_nil_ensured [OF assms(3)] obtain p where
    p: "fst (ensureProject (Client (dtrack u)) (projectName rs) (projectVersion rs)
              (record_event (Call_UploadBOM (projectName rs) (projectVersion rs) (parentName rs)
                 (parentVersion rs) (BOM x (sbom rs)) ?fl) ?w1)) = Inr p"
    by blast
  have s1: "submissions (trace ?w1) = submissions (trace w)"
    by (simp add: arbitrate_world(2) submissions_def split: option.splits)
  have s2: "submissions (trace w2) = submissions (trace ?w1)
      @ [Client_Upload (uploadRequest p (projectVersion rs) (parentName rs)
           (parentVersion rs) (BOM x (sbom rs)) ?fl)]"
    using UploadBOM_calls(3) [OF assms(3)] p by simp
  have "submissions (trace w3) = submissions (trace w2)"
    by (simp add: t3 submissions_def split: sum.splits)
  then show "\<exists>p. submissions (trace w3) = submissions (trace w)
                 @ [Client_Upload (uploadRequest p (projectVersion rs) (parentName rs)
                      (parentVersion rs) (BOM x (sbom rs)) ?fl)]"
    using s1 s2 by auto
qed

theorem Run_tagging_failure_witness:
  "resolve (fixed_packages (Inr (''update'', ''x''))) (config (fake_uploader [''a''])) []
     = Inr \<lparr>sbom = (''update'', ''x''), projectName = ''myproj'', projectVersion = ''v1'',
            projectTags = [''a''], parentName = [], parentVersion = []\<rparr>
   \<and> UploadBOM fake_dt first_ready background ''myproj'' ''v1'' [] [] [1, 2, 3] True
        (world0 failing)
       = Some (ReturnsNil,
           \<lparr>svc = failing\<lparr>uploads := [uploadRequest myproj ''v1'' [] [] [1, 2, 3] True]\<rparr>,
            trace = [Call_UploadBOM ''myproj'' ''v1'' [] [] [1, 2, 3] True,
                     Client_Lookup ''myproj'' ''v1'',
                     Client_Upload (uploadRequest myproj ''v1'' [] [] [1, 2, 3] True),
                     Client_IsBeingProcessed ''token'']\<rparr>)
   \<and> Run (fixed_packages (Inr (''update'', ''x''))) first_ready (fake_uploader [''a''])
        background [] (world0 failing)
       = Some (Returns (ErrorString ''update failed''),
           \<lparr>svc = failing\<lparr>uploads := [uploadRequest myproj ''v1'' [] [] [1, 2, 3] True]\<rparr>,
            trace = [Call_UploadBOM ''myproj'' ''v1'' [] [] [1, 2, 3] True,
                     Client_Lookup ''myproj'' ''v1'',
                     Client_Upload (uploadRequest myproj ''v1'' [] [] [1, 2, 3] True),
                     Client_IsBeingProcessed ''token'',
                     Call_AddTagsToProject ''myproj'' ''v1'' [''a''],
                     Client_Lookup ''myproj'' ''v1'',
                     Client_Update (myproj\<lparr>Tags := [Tag ''old'', Tag ''a'']\<rparr>)]\<rparr>)"
proof -
  let ?B = "fixed_packages (Inr (''update'', ''x''))"
  let ?rs = "\<lparr>sbom = (''update'', ''x''), projectName = ''myproj'', projectVersion = ''v1'',
            projectTags = [''a''], parentName = [], parentVersion = []\<rparr>"
  let ?w2 = "\<lparr>svc = failing\<lparr>uploads := [uploadRequest myproj ''v1'' [] [] [1, 2, 3] True]\<rparr>,
            trace = [Call_UploadBOM ''myproj'' ''v1'' [] [] [1, 2, 3] True,
                     Client_Lookup ''myproj'' ''v1'',
                     Client_Upload (uploadRequest myproj ''v1'' [] [] [1, 2, 3] True),
                     Client_IsBeingProcessed ''token'']\<rparr>"
  let ?w3 = "\<lparr>svc = failing\<lparr>uploads := [uploadRequest myproj ''v1'' [] [] [1, 2, 3] True]\<rparr>,
            trace = [Call_UploadBOM ''myproj'' ''v1'' [] [] [1, 2, 3] True,
                     Client_Lookup ''myproj'' ''v1'',
                     Client_Upload (uploadRequest myproj ''v1'' [] [] [1, 2, 3] True),
                     Client_IsBeingProcessed ''token'',
                     Call_AddTagsToProject ''myproj'' ''v1'' [''a''],
                     Client_Lookup ''myproj'' ''v1'',
                     Client_Update (myproj\<lparr>Tags := [Tag ''old'', Tag ''a'']\<rparr>)]\<rparr>"
  have res: "resolve ?B (config (fake_uploader [''a''])) [] = Inr ?rs"
    by (simp add: fixture_fields resolve_fixed)
  have tags: "projectTags ?rs \<noteq> []"
    by simp
  have up0: "UploadBOM fake_dt first_ready background ''myproj'' ''v1'' [] [] [1, 2, 3] True
        (world0 failing) = Some (ReturnsNil, ?w2)"
    using UploadBOM_example [of failing True]
    by (simp add: failing_def tracked_def empty_service_def)
  then have up: "UploadBOM (dtrack (fake_uploader [''a''])) first_ready background
      (projectName ?rs) (projectVersion ?rs) (parentName ?rs) (parentVersion ?rs)
      (BOM ?B (sbom ?rs)) (fst (arbitrate ?B (dtrack (fake_uploader [''a''])) ?rs (world0 failing)))
      (snd (arbitrate ?B (dtrack (fake_uploader [''a''])) ?rs (world0 failing)))
     = Some (ReturnsNil, ?w2)"
    by (simp add: fixture_fields arbitrate_unparsable)
  have tag: "AddTagsToProject (dtrack (fake_uploader [''a''])) (projectName ?rs)
      (projectVersion ?rs) (projectTags ?rs) ?w2 = (Returns (ErrorString ''update failed''), ?w3)"
    by (simp add: AddTagsToProject_def fixture_fields Lookup_def Update_def record_event_def
        appendTags_eq fake_Lookup_def fake_Update_def failing_def tracked_def empty_service_def
        myproj_def)
  show ?thesis
    using res up0 Run_tagging_failure [OF res tags up tag]
    by simp
qed

end
